theory Spec2Isabelle
  imports Complex_Main "HOL-Library.Stream"
begin

section \<open>Numbers, randomness and data\<close>

text \<open>
  The component \<^verbatim>\<open>HexagonGrid\<close> (src/app/components/HexagonGrid.tsx) computes on
  JavaScript numbers. They are modelled as \<^typ>\<open>real\<close>: every arithmetic operation
  is exact, rounding of IEEE doubles is not part of the model. Integer-valued numbers
  that drive iteration (\<^verbatim>\<open>cols\<close>, \<^verbatim>\<open>rows\<close>, indices) are \<^typ>\<open>int\<close>.

  \<^verbatim>\<open>Math.random()\<close> is an explicit source of draws: a stream of reals that
  every call pops. The contract of \<^verbatim>\<open>Math.random()\<close> (a value in \<open>[0, 1)\<close>)
  is the predicate \<open>validRng\<close>.
\<close>

type_synonym rng = "real stream"

definition random :: "rng \<Rightarrow> real \<times> rng" where
  "random g = (shd g, stl g)"

definition validRng :: "rng \<Rightarrow> bool" where
  "validRng g \<longleftrightarrow> sset g \<subseteq> {0..<1}"

datatype Color = Red | Green

record Hexagon =
  x :: real
  y :: real
  shouldHover :: bool
  shouldOscillate :: bool
  isStatic :: bool
  opacity :: real
  oscillationRate :: real
  oscillationDirection :: real
  hoverOpacity :: real
  hoverTarget :: real
  color :: "Color option"

text \<open>The numeric props of the component, with the defaults of its signature.\<close>

record HexagonGridProps =
  hexSize :: real
  staticHexChance :: real
  panSpeed :: real
  hoverDelay :: real

definition defaultProps :: HexagonGridProps where
  "defaultProps = \<lparr>hexSize = 30, staticHexChance = 0.01, panSpeed = 0.15, hoverDelay = 0.3\<rparr>"

section \<open>Geometry\<close>

text \<open>
  \<^verbatim>\<open>hexWidth\<close>, \<^verbatim>\<open>hexHeight\<close> and \<^verbatim>\<open>verticalSpacing\<close> are local constants of both
  \<^verbatim>\<open>initializeGrid\<close> and \<^verbatim>\<open>animate\<close>, computed from \<^verbatim>\<open>hexSize\<close> the same way.
\<close>

definition hexWidth :: "real \<Rightarrow> real" where
  "hexWidth sz = sz * sqrt 3"

definition hexHeight :: "real \<Rightarrow> real" where
  "hexHeight sz = sz * 2"

definition verticalSpacing :: "real \<Rightarrow> real" where
  "verticalSpacing sz = hexHeight sz * 0.75"

definition getHexagonVertices :: "real \<Rightarrow> real \<Rightarrow> real \<Rightarrow> (real \<times> real) list" where
  "getHexagonVertices cx cy sz =
     map (\<lambda>i. let angle = (pi / 3) * real i - pi / 6
              in (cx + sz * cos angle, cy + sz * sin angle)) [0..<6]"

definition isPointInHexagon :: "real \<Rightarrow> real \<Rightarrow> real \<Rightarrow> real \<Rightarrow> real \<Rightarrow> bool" where
  "isPointInHexagon px py cx cy sz =
     (let dx = \<bar>px - cx\<bar>; dy = \<bar>py - cy\<bar>
      in if dx > sz * sqrt 3 / 2 \<or> dy > sz then False
         else dy \<le> sz * (1 - dx / (sz * sqrt 3)))"

text \<open>
  The containment test in the words of the specification (section 4.1): reject if
  \<open>|dx| > size\<cdot>\<surd>3/2\<close> or \<open>|dy| > size\<close>; otherwise accept if
  \<open>|dy| \<le> size\<cdot>(1 - |dx|/(size\<cdot>\<surd>3))\<close>.
\<close>

definition pointInHexagon_spec :: "real \<times> real \<Rightarrow> real \<times> real \<Rightarrow> real \<Rightarrow> bool" where
  "pointInHexagon_spec point center sz \<longleftrightarrow>
     \<not> (\<bar>fst point - fst center\<bar> > sz * sqrt 3 / 2 \<or> \<bar>snd point - snd center\<bar> > sz) \<and>
     \<bar>snd point - snd center\<bar> \<le> sz * (1 - \<bar>fst point - fst center\<bar> / (sz * sqrt 3))"

section \<open>Wave function\<close>

text \<open>
  The wave is computed inline, per vertex, in \<^verbatim>\<open>drawHexagon\<close> and in \<^verbatim>\<open>animate\<close>:
  \<^verbatim>\<open>rawWave = (Math.sin(waveTime + vertex.x * 0.01 + vertex.y * 0.01) + 1) / 2\<close>,
  \<^verbatim>\<open>wave = Math.pow(rawWave, 4)\<close>.
\<close>

definition rawWave :: "real \<Rightarrow> real \<times> real \<Rightarrow> real" where
  "rawWave waveTime vertex = (sin (waveTime + fst vertex * 0.01 + snd vertex * 0.01) + 1) / 2"

definition wave :: "real \<Rightarrow> real \<times> real \<Rightarrow> real" where
  "wave waveTime vertex = (rawWave waveTime vertex) ^ 4"

section \<open>Grid generation\<close>

text \<open>
  \<^verbatim>\<open>0.05 + Math.random() * 0.35\<close>, the initial opacity of oscillating, static and
  coloured cells.
\<close>

definition bandOpacity :: "rng \<Rightarrow> real \<times> rng" where
  "bandOpacity g = (let (r, g') = random g in (0.05 + r * 0.35, g'))"

text \<open>
  The remainder operator \<^verbatim>\<open>%\<close> of JavaScript on integers: the result has the sign of
  the dividend, so \<^verbatim>\<open>-1 % 2\<close> is \<open>-1\<close>.
\<close>

definition jsRem :: "int \<Rightarrow> int \<Rightarrow> int" where
  "jsRem a b = sgn a * (\<bar>a\<bar> mod \<bar>b\<bar>)"

text \<open>
  The body of the nested loop of \<^verbatim>\<open>initializeGrid\<close>: one cell at \<open>(row, col)\<close>. The
  draws are taken in the order of the source; \<^verbatim>\<open>!shouldOscillate && Math.random() < 0.002\<close>
  draws only when the cell does not oscillate.
\<close>

definition createHexagon :: "HexagonGridProps \<Rightarrow> int \<Rightarrow> int \<Rightarrow> rng \<Rightarrow> Hexagon \<times> rng" where
  "createHexagon props row col g =
     (let hw = hexWidth (hexSize props);
          vs = verticalSpacing (hexSize props);
          cellX = real_of_int col * hw + real_of_int (jsRem row 2) * (hw / 2);
          cellY = real_of_int row * vs;
          (r1, g1) = random g;
          hover = r1 < staticHexChance props;
          (r2, g2) = random g1;
          osc = r2 < 0.002;
          (stat, g3) = (if osc then (False, g2)
                        else (let (r3, g') = random g2 in (r3 < 0.002, g')));
          (op, g4) = (if osc then bandOpacity g3
                      else if stat then bandOpacity g3
                      else (0, g3));
          (r5, g5) = random g4;
          (r6, g6) = random g5
      in (\<lparr>x = cellX, y = cellY, shouldHover = hover, shouldOscillate = osc, isStatic = stat,
           opacity = op, oscillationRate = 0.001 + r5 * 0.0012,
           oscillationDirection = (if r6 > 0.5 then 1 else - 1),
           hoverOpacity = 0, hoverTarget = 0, color = None\<rparr>, g6))"

text \<open>
  \<^verbatim>\<open>for (let col = -1; col < cols; col++)\<close> and the same for rows: they run over
  \<open>-1, \<dots>, cols - 1\<close> and \<open>-1, \<dots>, rows - 1\<close>.
\<close>

definition gridCols :: "HexagonGridProps \<Rightarrow> real \<Rightarrow> int list" where
  "gridCols props width = [- 1 .. (\<lceil>width / hexWidth (hexSize props)\<rceil> + 2) - 1]"

definition gridRows :: "HexagonGridProps \<Rightarrow> real \<Rightarrow> int list" where
  "gridRows props height = [- 1 .. (\<lceil>height / verticalSpacing (hexSize props)\<rceil> + 2) - 1]"

definition pushHexagon :: "HexagonGridProps \<Rightarrow> int \<Rightarrow> int \<Rightarrow> Hexagon list \<times> rng \<Rightarrow> Hexagon list \<times> rng" where
  "pushHexagon props row col st =
     (case st of (hexagons, g) \<Rightarrow>
        (let (hex, g') = createHexagon props row col g in (hexagons @ [hex], g')))"

definition gridRow :: "HexagonGridProps \<Rightarrow> real \<Rightarrow> int \<Rightarrow> Hexagon list \<times> rng \<Rightarrow> Hexagon list \<times> rng" where
  "gridRow props width row st = fold (pushHexagon props row) (gridCols props width) st"

text \<open>
  The highlight pass. \<^verbatim>\<open>hexagons[idx].color = color\<close> throws a TypeError when
  \<^verbatim>\<open>hexagons[idx]\<close> is undefined; with draws in \<open>[0, 1)\<close> the index
  \<^verbatim>\<open>Math.floor(Math.random() * totalHexagons)\<close> is always in range.
\<close>

datatype Error = TypeError

definition paint :: "Color \<Rightarrow> real \<Rightarrow> Hexagon \<Rightarrow> Hexagon" where
  "paint c op hex = hex\<lparr>color := Some c, shouldOscillate := True, opacity := op\<rparr>"

definition colorNeighbor ::
  "int \<Rightarrow> Color \<Rightarrow> int \<Rightarrow> nat \<Rightarrow> Hexagon list \<times> int set \<times> rng \<Rightarrow> Hexagon list \<times> int set \<times> rng" where
  "colorNeighbor idx c totalHexagons j st =
     (case st of (hexagons, colored, g) \<Rightarrow>
        (let (r, g1) = random g;
             offset = (int j + 1) * (if r > 0.5 then 1 else - 1);
             neighborIdx = idx + offset
         in if neighborIdx \<ge> 0 \<and> neighborIdx < totalHexagons \<and> neighborIdx \<notin> colored
            then (let (op, g2) = bandOpacity g1
                  in (hexagons[nat neighborIdx := paint c op (hexagons ! nat neighborIdx)],
                      insert neighborIdx colored, g2))
            else (hexagons, colored, g1)))"

definition colorSeed ::
  "int \<Rightarrow> Hexagon list \<times> int set \<times> rng \<Rightarrow> Error + Hexagon list \<times> int set \<times> rng" where
  "colorSeed totalHexagons st =
     (case st of (hexagons, colored, g) \<Rightarrow>
        (let (r, g1) = random g;
             idx = \<lfloor>r * real_of_int totalHexagons\<rfloor>
         in if idx \<in> colored then Inr (hexagons, colored, g1)
            else (let (r2, g2) = random g1;
                      c = (if r2 > 0.5 then Red else Green)
                  in if idx < 0 \<or> idx \<ge> int (length hexagons) then Inl TypeError
                     else (let (op, g3) = bandOpacity g2;
                               hexagons1 = hexagons[nat idx := paint c op (hexagons ! nat idx)];
                               colored1 = insert idx colored;
                               (r4, g4) = random g3;
                               neighborsToAdd = (if r4 > 0.5 then 1 else 2 :: nat)
                           in Inr (fold (colorNeighbor idx c totalHexagons) [0..<neighborsToAdd]
                                     (hexagons1, colored1, g4))))))"

text \<open>\<^verbatim>\<open>for (let i = 0; i < coloredCount; i++)\<close>; the body does not read \<open>i\<close>.\<close>

fun colorLoop ::
  "nat \<Rightarrow> int \<Rightarrow> Hexagon list \<times> int set \<times> rng \<Rightarrow> Error + Hexagon list \<times> int set \<times> rng" where
  "colorLoop 0 totalHexagons st = Inr st"
| "colorLoop (Suc n) totalHexagons st =
     (case colorSeed totalHexagons st of
        Inl e \<Rightarrow> Inl e
      | Inr st' \<Rightarrow> colorLoop n totalHexagons st')"

definition initializeGrid ::
  "HexagonGridProps \<Rightarrow> real \<Rightarrow> real \<Rightarrow> rng \<Rightarrow> Error + Hexagon list \<times> rng" where
  "initializeGrid props width height g =
     (let (hexagons, g1) = fold (gridRow props width) (gridRows props height) ([], g);
          totalHexagons = int (length hexagons);
          coloredCount = \<lfloor>real_of_int totalHexagons * 0.01\<rfloor>
      in case colorLoop (nat coloredCount) totalHexagons (hexagons, {}, g1) of
           Inl e \<Rightarrow> Inl e
         | Inr (hexagons', colored, g2) \<Rightarrow> Inr (hexagons', g2))"

section \<open>Drawing\<close>

text \<open>
  What reaches the canvas. The fill style is kept as the colour tag (\<open>None\<close> is the
  configured default colour) and the alpha value; the formatting of the CSS colour
  string is not modelled.
\<close>

datatype CanvasOp =
    FillRect real real real real
  | FillCircle real real real real
  | FillPolygon "(real \<times> real) list" "Color option" real

definition drawHexagon ::
  "real \<Rightarrow> real \<Rightarrow> real \<Rightarrow> real \<Rightarrow> real \<Rightarrow> Color option \<Rightarrow> CanvasOp list" where
  "drawHexagon cx cy sz op waveTime c =
     (if op \<le> 0.01 then []
      else (let vertices = getHexagonVertices cx cy sz;
                waveVertices = map (\<lambda>vertex. let yOffset = - (wave waveTime vertex - 0.5) * 12
                                             in (fst vertex, snd vertex + yOffset)) vertices
            in [FillPolygon waveVertices c op]))"

definition drawStar :: "real \<Rightarrow> real \<Rightarrow> real \<Rightarrow> real \<Rightarrow> CanvasOp list" where
  "drawStar sx sy sz w = (let brightness = 0.06 + w * 0.2 in [FillCircle sx sy sz brightness])"

section \<open>The frame: recycling, oscillation, hover\<close>

text \<open>
  The block that both wrap branches of \<^verbatim>\<open>animate\<close> run after moving the cell:
  every random property is drawn again, hover state and colour are cleared.
\<close>

definition reroll :: "HexagonGridProps \<Rightarrow> Hexagon \<Rightarrow> rng \<Rightarrow> Hexagon \<times> rng" where
  "reroll props hex g =
     (let (r1, g1) = random g;
          osc = r1 < 0.002;
          (stat, g2) = (if osc then (False, g1)
                        else (let (r2, g') = random g1 in (r2 < 0.002, g')));
          (op, g3) = (if osc then bandOpacity g2
                      else if stat then bandOpacity g2
                      else (0, g2));
          (r4, g4) = random g3;
          (r5, g5) = random g4;
          (r6, g6) = random g5
      in (hex\<lparr>shouldOscillate := osc, isStatic := stat, opacity := op,
               oscillationRate := 0.001 + r4 * 0.0012,
               oscillationDirection := (if r5 > 0.5 then 1 else - 1),
               shouldHover := r6 < staticHexChance props,
               hoverOpacity := 0, hoverTarget := 0, color := None\<rparr>, g6))"

text \<open>
  The body of the first \<^verbatim>\<open>forEach\<close> of \<^verbatim>\<open>animate\<close>. Both screen coordinates are
  computed before either branch runs. A canvas size is the pair (width, height), an
  offset and a pointer position are pairs (x, y).
\<close>

definition wrapHex ::
  "HexagonGridProps \<Rightarrow> real \<times> real \<Rightarrow> real \<times> real \<Rightarrow> Hexagon \<Rightarrow> rng \<Rightarrow> Hexagon \<times> rng" where
  "wrapHex props canvasSize offset hex g =
     (let hw = hexWidth (hexSize props);
          hh = hexHeight (hexSize props);
          vs = verticalSpacing (hexSize props);
          screenX = x hex - fst offset;
          screenY = y hex - snd offset;
          (hex1, g1) = (if screenX < - hw * 3
                        then reroll props
                               (hex\<lparr>x := x hex + hw * real_of_int (\<lceil>fst canvasSize / hw\<rceil> + 4)\<rparr>) g
                        else (hex, g))
      in if screenY < - hh * 3
         then reroll props
                (hex1\<lparr>y := y hex1 + vs * real_of_int (\<lceil>snd canvasSize / vs\<rceil> + 4)\<rparr>) g1
         else (hex1, g1))"

fun wrapAll ::
  "HexagonGridProps \<Rightarrow> real \<times> real \<Rightarrow> real \<times> real \<Rightarrow> Hexagon list \<Rightarrow> rng \<Rightarrow> Hexagon list \<times> rng" where
  "wrapAll props canvasSize offset [] g = ([], g)"
| "wrapAll props canvasSize offset (hex # hexagons) g =
     (let (hex', g1) = wrapHex props canvasSize offset hex g;
          (hexagons', g2) = wrapAll props canvasSize offset hexagons g1
      in (hex' # hexagons', g2))"

text \<open>The block under \<^verbatim>\<open>if (hex.shouldOscillate)\<close>.\<close>

definition updateOscillation :: "real \<Rightarrow> Hexagon \<Rightarrow> Hexagon" where
  "updateOscillation deltaTime hex =
     (if shouldOscillate hex
      then (let hex1 = hex\<lparr>opacity := opacity hex
                             + oscillationRate hex * oscillationDirection hex * deltaTime * 60\<rparr>
            in if opacity hex1 \<ge> 0.4 then hex1\<lparr>opacity := 0.4, oscillationDirection := - 1\<rparr>
               else if opacity hex1 \<le> 0.05 then hex1\<lparr>opacity := 0.05, oscillationDirection := 1\<rparr>
               else hex1)
      else hex)"

text \<open>The block under \<^verbatim>\<open>if (hex.shouldHover)\<close>.\<close>

definition hoverSpeed :: "HexagonGridProps \<Rightarrow> bool \<Rightarrow> real" where
  "hoverSpeed props isHovered = hoverDelay props * (if isHovered then 0.5 else 1)"

definition updateHover ::
  "HexagonGridProps \<Rightarrow> real \<times> real \<Rightarrow> real \<Rightarrow> real \<Rightarrow> real \<Rightarrow> Hexagon \<Rightarrow> Hexagon" where
  "updateHover props mouse screenX screenY deltaTime hex =
     (if shouldHover hex
      then (let isHovered = isPointInHexagon (fst mouse) (snd mouse) screenX screenY (hexSize props);
                hex1 = hex\<lparr>hoverTarget := (if isHovered then 0.8 else 0)\<rparr>
            in hex1\<lparr>hoverOpacity := hoverOpacity hex1
                       + (hoverTarget hex1 - hoverOpacity hex1) * hoverSpeed props isHovered
                         * deltaTime * 60\<rparr>)
      else hex)"

text \<open>The skip test of the second \<^verbatim>\<open>forEach\<close>.\<close>

definition offScreen :: "HexagonGridProps \<Rightarrow> real \<times> real \<Rightarrow> real \<Rightarrow> real \<Rightarrow> bool" where
  "offScreen props canvasSize screenX screenY \<longleftrightarrow>
     screenX < - hexWidth (hexSize props) \<or>
     screenX > fst canvasSize + hexWidth (hexSize props) \<or>
     screenY < - hexHeight (hexSize props) \<or>
     screenY > snd canvasSize + hexHeight (hexSize props)"

text \<open>
  The body of the second \<^verbatim>\<open>forEach\<close>: the updated cell and what it draws, stars
  first, then the cell.
\<close>

definition drawCell ::
  "HexagonGridProps \<Rightarrow> real \<times> real \<Rightarrow> real \<times> real \<Rightarrow> real \<times> real \<Rightarrow> real \<Rightarrow> real \<Rightarrow> Hexagon
     \<Rightarrow> Hexagon \<times> CanvasOp list" where
  "drawCell props canvasSize offset mouse waveTime deltaTime hex =
     (let screenX = x hex - fst offset;
          screenY = y hex - snd offset
      in if offScreen props canvasSize screenX screenY then (hex, [])
         else (let vertices = getHexagonVertices screenX screenY (hexSize props);
                   stars = concat (map (\<lambda>vertex.
                              let w = wave waveTime vertex;
                                  yOffset = - (w - 0.5) * 12
                              in drawStar (fst vertex) (snd vertex + yOffset) 1.5 w) vertices);
                   hex1 = updateOscillation deltaTime hex;
                   hex2 = updateHover props mouse screenX screenY deltaTime hex1;
                   finalOpacity = max (opacity hex2) (hoverOpacity hex2)
               in (hex2, stars @ drawHexagon screenX screenY (hexSize props) finalOpacity
                                   waveTime (color hex2))))"

text \<open>The mutable state of one mounted component, with the source of random draws.\<close>

record State =
  hexagonsRef :: "Hexagon list"
  offsetRef :: "real \<times> real"
  mouseRef :: "real \<times> real"
  waveTimeRef :: real
  canvasSize :: "real \<times> real"
  lastTime :: real
  rngState :: rng

definition animate :: "HexagonGridProps \<Rightarrow> real \<Rightarrow> State \<Rightarrow> State \<times> CanvasOp list" where
  "animate props currentTime st =
     (let deltaTime = (currentTime - lastTime st) / 1000;
          offset = (fst (offsetRef st) + panSpeed props * deltaTime * 60,
                    snd (offsetRef st) + panSpeed props * deltaTime * 60);
          waveTime = waveTimeRef st + deltaTime * 0.5;
          clear = FillRect 0 0 (fst (canvasSize st)) (snd (canvasSize st));
          (wrapped, g1) = wrapAll props (canvasSize st) offset (hexagonsRef st) (rngState st);
          drawn = map (drawCell props (canvasSize st) offset (mouseRef st) waveTime deltaTime) wrapped
      in (st\<lparr>hexagonsRef := map fst drawn, offsetRef := offset, waveTimeRef := waveTime,
              lastTime := currentTime, rngState := g1\<rparr>,
          clear # concat (map snd drawn)))"

text \<open>
  What happens to a mounted component between resizes: animation frames, and the two
  pointer handlers \<^verbatim>\<open>handleMouseMove\<close> and \<^verbatim>\<open>handleMouseLeave\<close>.
\<close>

datatype Event = AnimationFrame real | MouseMove real real | MouseLeave

fun handleEvent :: "HexagonGridProps \<Rightarrow> State \<Rightarrow> Event \<Rightarrow> State" where
  "handleEvent props st (AnimationFrame currentTime) = fst (animate props currentTime st)"
| "handleEvent props st (MouseMove mx my) = st\<lparr>mouseRef := (mx, my)\<rparr>"
| "handleEvent props st MouseLeave = st\<lparr>mouseRef := (- 1000, - 1000)\<rparr>"

definition runEvents :: "HexagonGridProps \<Rightarrow> State \<Rightarrow> Event list \<Rightarrow> State" where
  "runEvents props st evs = foldl (handleEvent props) st evs"

text \<open>
  A cell under a pointer that is held at the cell's centre: its states frame by frame,
  one frame per delta time.
\<close>

fun hoverTrace :: "HexagonGridProps \<Rightarrow> real \<times> real \<Rightarrow> real list \<Rightarrow> Hexagon \<Rightarrow> Hexagon list" where
  "hoverTrace props c [] hex = [hex]"
| "hoverTrace props c (deltaTime # deltaTimes) hex =
     hex # hoverTrace props c deltaTimes (updateHover props c (fst c) (snd c) deltaTime hex)"

text \<open>The oscillation band of the source, \<open>[0.05, 0.4]\<close>.\<close>

definition inBand :: "Hexagon \<Rightarrow> bool" where
  "inBand hex \<longleftrightarrow> 0.05 \<le> opacity hex \<and> opacity hex \<le> 0.4"

text \<open>The invariant of a cell: while it oscillates, its opacity is inside the band.\<close>

definition bandOK :: "Hexagon \<Rightarrow> bool" where
  "bandOK hex \<longleftrightarrow> (shouldOscillate hex \<longrightarrow> inBand hex)"

section \<open>Properties of a generated grid\<close>

text \<open>The world position that \<^verbatim>\<open>initializeGrid\<close> gives the cell at \<open>(row, col)\<close>.\<close>

definition cellPos :: "HexagonGridProps \<Rightarrow> int \<Rightarrow> int \<Rightarrow> real \<times> real" where
  "cellPos props row col =
     (real_of_int col * hexWidth (hexSize props)
        + real_of_int (jsRem row 2) * (hexWidth (hexSize props) / 2),
      real_of_int row * verticalSpacing (hexSize props))"

definition position :: "Hexagon \<Rightarrow> real \<times> real" where
  "position hex = (x hex, y hex)"

text \<open>
  What the highlight pass keeps: the positions of the cells, the draws inside a set \<open>A\<close>,
  and a property \<open>Q\<close> of every cell.
\<close>

definition colorInv ::
  "(real \<times> real) list \<Rightarrow> real set \<Rightarrow> (Hexagon \<Rightarrow> bool) \<Rightarrow> Hexagon list \<times> int set \<times> rng \<Rightarrow> bool" where
  "colorInv M A Q st \<longleftrightarrow>
     map position (fst st) = M \<and> sset (snd (snd st)) \<subseteq> A \<and> list_all Q (fst st)"

text \<open>
  The cells that \<^verbatim>\<open>initializeGrid\<close> stores in \<^verbatim>\<open>hexagonsRef.current\<close>. When the
  highlight pass throws, the assignment is not reached; the empty list stands for that.
\<close>

definition hexagonsOf :: "Error + Hexagon list \<times> rng \<Rightarrow> Hexagon list" where
  "hexagonsOf r = (case r of Inl e \<Rightarrow> [] | Inr (hexagons, g) \<Rightarrow> hexagons)"

text \<open>The positions of the generated tiling, row by row.\<close>

definition gridPositions :: "HexagonGridProps \<Rightarrow> real \<Rightarrow> real \<Rightarrow> (real \<times> real) list" where
  "gridPositions props width height =
     concat (map (\<lambda>row. map (cellPos props row) (gridCols props width)) (gridRows props height))"

text \<open>The behaviour profile that the specification calls Inert.\<close>

definition inert :: "Hexagon \<Rightarrow> bool" where
  "inert hex \<longleftrightarrow> \<not> shouldHover hex \<and> \<not> shouldOscillate hex \<and> \<not> isStatic hex \<and> color hex = None"

text \<open>The default props with the special-behaviour probability forced to 0.\<close>

definition zeroChanceProps :: HexagonGridProps where
  "zeroChanceProps = defaultProps\<lparr>staticHexChance := 0\<rparr>"

section \<open>Sample inputs\<close>

text \<open>
  A hover-enabled, oscillating cell close to the upper bound of the band, a hover-enabled
  cell at rest, and a mounted component that holds the first one.
\<close>

definition brightHex :: Hexagon where
  "brightHex = \<lparr>x = 100, y = 90, shouldHover = True, shouldOscillate = True, isStatic = False,
     opacity = 0.399, oscillationRate = 0.002, oscillationDirection = 1, hoverOpacity = 0,
     hoverTarget = 0, color = Some Red\<rparr>"

definition restHex :: Hexagon where
  "restHex = \<lparr>x = 0, y = 0, shouldHover = True, shouldOscillate = False, isStatic = False,
     opacity = 0, oscillationRate = 0.001, oscillationDirection = 1, hoverOpacity = 0,
     hoverTarget = 0, color = None\<rparr>"

definition sampleState :: State where
  "sampleState = \<lparr>hexagonsRef = [brightHex], offsetRef = (0, 0), mouseRef = (- 1000, - 1000),
     waveTimeRef = 0, canvasSize = (300, 300), lastTime = 0, rngState = sconst 0\<rparr>"

text \<open>A component whose only cell is parked left of the draw margin.\<close>

definition parkedState :: State where
  "parkedState = \<lparr>hexagonsRef = [restHex], offsetRef = (100, 0), mouseRef = (- 1000, - 1000),
     waveTimeRef = 0, canvasSize = (300, 300), lastTime = 0, rngState = sconst 0\<rparr>"

section \<open>Random draws and the band invariant\<close>

lemma validRng_shd: "validRng g \<Longrightarrow> 0 \<le> shd g \<and> shd g < 1"
  unfolding validRng_def using shd_sset [of g] by auto

lemma sset_stl: "sset (stl g) \<subseteq> sset g"
  using stl_sset [of _ g] by auto

lemma validRng_mono: "sset g' \<subseteq> sset g \<Longrightarrow> validRng g \<Longrightarrow> validRng g'"
  unfolding validRng_def by blast

lemma validRng_sconst: "0 \<le> r \<Longrightarrow> r < 1 \<Longrightarrow> validRng (sconst r)"
  by (simp add: validRng_def)

lemma bandOpacity_eq: "bandOpacity g = (0.05 + shd g * 0.35, stl g)"
  by (simp add: bandOpacity_def random_def)

lemma bandOpacity_range:
  "validRng g \<Longrightarrow> 0.05 \<le> fst (bandOpacity g) \<and> fst (bandOpacity g) < 0.4"
  using validRng_shd [of g] by (simp add: bandOpacity_eq)

lemma reroll_sset: "sset (snd (reroll props hex g)) \<subseteq> sset g"
proof -
  have s1: "sset (stl g) \<subseteq> sset g" by (rule sset_stl)
  have s2: "sset (stl (stl g)) \<subseteq> sset g" using sset_stl [of "stl g"] s1 by blast
  have s3: "sset (stl (stl (stl g))) \<subseteq> sset g" using sset_stl [of "stl (stl g)"] s2 by blast
  have s4: "sset (stl (stl (stl (stl g)))) \<subseteq> sset g" using sset_stl [of "stl (stl (stl g))"] s3 by blast
  have s5: "sset (stl (stl (stl (stl (stl g))))) \<subseteq> sset g"
    using sset_stl [of "stl (stl (stl (stl g)))"] s4 by blast
  have s6: "sset (stl (stl (stl (stl (stl (stl g)))))) \<subseteq> sset g"
    using sset_stl [of "stl (stl (stl (stl (stl g))))"] s5 by blast
  show ?thesis
    using s4 s5 s6 by (simp add: reroll_def random_def bandOpacity_eq Let_def split_def)
qed

lemma reroll_fields:
  "color (fst (reroll props hex g)) = None"
  "hoverOpacity (fst (reroll props hex g)) = 0"
  "hoverTarget (fst (reroll props hex g)) = 0"
  "x (fst (reroll props hex g)) = x hex"
  "y (fst (reroll props hex g)) = y hex"
  by (simp_all add: reroll_def Let_def split_def)

lemma reroll_band:
  assumes "validRng g" and "shouldOscillate (fst (reroll props hex g))"
  shows "inBand (fst (reroll props hex g))"
proof -
  have "0 \<le> shd (stl g) \<and> shd (stl g) < 1"
    using assms(1) validRng_mono [OF sset_stl] validRng_shd by blast
  with assms(2) show ?thesis
    by (simp add: reroll_def random_def bandOpacity_eq Let_def split_def inBand_def split: if_splits)
qed

lemma osc_step:
  assumes "shouldOscillate hex"
  shows "inBand (updateOscillation dt hex)"
  using assms by (simp add: updateOscillation_def inBand_def Let_def)

lemma osc_keep: "shouldOscillate (updateOscillation dt hex) = shouldOscillate hex"
  by (simp add: updateOscillation_def Let_def)

lemma hover_keep:
  "shouldOscillate (updateHover props m sx sy dt hex) = shouldOscillate hex"
  "opacity (updateHover props m sx sy dt hex) = opacity hex"
  "oscillationDirection (updateHover props m sx sy dt hex) = oscillationDirection hex"
  "color (updateHover props m sx sy dt hex) = color hex"
  "x (updateHover props m sx sy dt hex) = x hex"
  "y (updateHover props m sx sy dt hex) = y hex"
  by (simp_all add: updateHover_def Let_def)

lemma reroll_bandOK: "validRng g \<Longrightarrow> bandOK (fst (reroll props hex g))"
  by (simp add: bandOK_def reroll_band)

lemma wrapHex_sset: "sset (snd (wrapHex props cs off hex g)) \<subseteq> sset g"
proof -
  have a: "sset (snd (reroll props h1 g)) \<subseteq> sset g" for h1 by (rule reroll_sset)
  have b: "sset (snd (reroll props h2 (snd (reroll props h1 g)))) \<subseteq> sset g" for h1 h2
    using reroll_sset [of props h2 "snd (reroll props h1 g)"] a [of h1] by blast
  show ?thesis
    using a b by (simp add: wrapHex_def Let_def split_def)
qed

lemma wrapHex_bandOK:
  assumes "validRng g" and "bandOK hex"
  shows "bandOK (fst (wrapHex props cs off hex g))"
proof -
  have v: "validRng (snd (reroll props h1 g))" for h1
    using validRng_mono [OF reroll_sset assms(1)] .
  show ?thesis
    using assms v by (simp add: wrapHex_def Let_def split_def reroll_bandOK)
qed

lemma wrapAll_sset: "sset (snd (wrapAll props cs off hexagons g)) \<subseteq> sset g"
proof (induction hexagons arbitrary: g)
  case Nil
  show ?case by simp
next
  case (Cons hex hexagons)
  have "sset (snd (wrapAll props cs off hexagons (snd (wrapHex props cs off hex g))))
          \<subseteq> sset (snd (wrapHex props cs off hex g))"
    by (rule Cons.IH)
  also have "\<dots> \<subseteq> sset g" by (rule wrapHex_sset)
  finally show ?case by (simp add: Let_def split_def)
qed

lemma wrapAll_bandOK:
  "validRng g \<Longrightarrow> list_all bandOK hexagons
     \<Longrightarrow> list_all bandOK (fst (wrapAll props cs off hexagons g))"
proof (induction hexagons arbitrary: g)
  case Nil
  show ?case by simp
next
  case (Cons hex hexagons)
  from Cons.prems have v: "validRng (snd (wrapHex props cs off hex g))"
    using validRng_mono [OF wrapHex_sset] by blast
  from Cons.prems have "list_all bandOK hexagons" by simp
  with v have "list_all bandOK (fst (wrapAll props cs off hexagons (snd (wrapHex props cs off hex g))))"
    by (rule Cons.IH)
  moreover from Cons.prems have "bandOK (fst (wrapHex props cs off hex g))"
    by (simp add: wrapHex_bandOK)
  ultimately show ?case by (simp add: Let_def split_def)
qed

lemma wrapAll_length: "length (fst (wrapAll props cs off hexagons g)) = length hexagons"
  by (induction hexagons arbitrary: g) (simp_all add: Let_def split_def)

lemma updateOscillation_bandOK: "bandOK (updateOscillation dt hex)"
  by (simp add: bandOK_def osc_keep osc_step)

lemma updateHover_bandOK: "bandOK hex \<Longrightarrow> bandOK (updateHover props m sx sy dt hex)"
  by (simp add: bandOK_def inBand_def hover_keep)

lemma drawCell_bandOK:
  "bandOK hex \<Longrightarrow> bandOK (fst (drawCell props cs off m wt dt hex))"
  by (simp add: drawCell_def Let_def updateHover_bandOK updateOscillation_bandOK)

lemma animate_bandOK:
  assumes "validRng (rngState st)" and "list_all bandOK (hexagonsRef st)"
  shows "list_all bandOK (hexagonsRef (fst (animate props t st)))
       \<and> validRng (rngState (fst (animate props t st)))"
proof -
  let ?dt = "(t - lastTime st) / 1000"
  let ?off = "(fst (offsetRef st) + panSpeed props * ?dt * 60,
               snd (offsetRef st) + panSpeed props * ?dt * 60)"
  let ?w = "wrapAll props (canvasSize st) ?off (hexagonsRef st) (rngState st)"
  have "list_all bandOK (fst ?w)" using assms by (rule wrapAll_bandOK)
  then have "list_all bandOK (map (\<lambda>h. fst (drawCell props (canvasSize st) ?off (mouseRef st)
                 (waveTimeRef st + ?dt * 0.5) ?dt h)) (fst ?w))"
    by (simp add: list_all_iff drawCell_bandOK)
  moreover have "validRng (snd ?w)" using validRng_mono [OF wrapAll_sset assms(1)] .
  ultimately show ?thesis
    by (simp add: animate_def Let_def split_def comp_def)
qed

lemma handleEvent_bandOK:
  assumes "validRng (rngState st)" and "list_all bandOK (hexagonsRef st)"
  shows "list_all bandOK (hexagonsRef (handleEvent props st ev))
       \<and> validRng (rngState (handleEvent props st ev))"
  using assms animate_bandOK [OF assms] by (cases ev) simp_all

lemma runEvents_bandOK:
  "validRng (rngState st) \<Longrightarrow> list_all bandOK (hexagonsRef st)
     \<Longrightarrow> list_all bandOK (hexagonsRef (runEvents props st evs))
       \<and> validRng (rngState (runEvents props st evs))"
  unfolding runEvents_def
proof (induction evs arbitrary: st)
  case Nil
  then show ?case by simp
next
  case (Cons ev evs)
  from handleEvent_bandOK [OF Cons.prems, of props ev] Cons.IH [of "handleEvent props st ev"]
  show ?case by simp
qed

section \<open>Hover easing\<close>

lemma center_inside: "0 < sz \<Longrightarrow> isPointInHexagon cx cy cx cy sz"
  by (simp add: isPointInHexagon_def mult_less_0_iff)

lemma hover_gap:
  "shouldHover hex \<Longrightarrow>
   hoverTarget (updateHover props m sx sy dt hex) - hoverOpacity (updateHover props m sx sy dt hex)
   = (hoverTarget (updateHover props m sx sy dt hex) - hoverOpacity hex)
     * (1 - hoverSpeed props (isPointInHexagon (fst m) (snd m) sx sy (hexSize props)) * dt * 60)"
  by (simp add: updateHover_def Let_def algebra_simps)

lemma hover_center_step:
  assumes "shouldHover hex" "0 < hexSize props"
  shows "updateHover props c (fst c) (snd c) dt hex
     = hex\<lparr>hoverTarget := 0.8,
            hoverOpacity := hoverOpacity hex + (0.8 - hoverOpacity hex) * hoverSpeed props True * dt * 60\<rparr>"
  using assms by (simp add: updateHover_def Let_def center_inside)

lemma trace_bounds:
  assumes "0 < hexSize props"
    and "\<forall>dt\<in>set dts. 0 \<le> hoverSpeed props True * dt * 60 \<and> hoverSpeed props True * dt * 60 \<le> 1"
    and "shouldHover hex" and "hoverOpacity hex \<le> 0.8"
  shows "\<forall>h\<in>set (hoverTrace props c dts hex). hoverOpacity hex \<le> hoverOpacity h \<and> hoverOpacity h \<le> 0.8"
  using assms(2-)
proof (induction dts arbitrary: hex)
  case Nil
  then show ?case by simp
next
  case (Cons dt dts)
  let ?k = "hoverSpeed props True * dt * 60"
  let ?h = "updateHover props c (fst c) (snd c) dt hex"
  from Cons.prems have k: "0 \<le> ?k" "?k \<le> 1" by simp_all
  have step: "hoverOpacity ?h = hoverOpacity hex + (0.8 - hoverOpacity hex) * ?k"
    using hover_center_step [OF Cons.prems(2) assms(1)] by (simp add: mult.assoc)
  have gap: "0 \<le> 0.8 - hoverOpacity hex" using Cons.prems(3) by simp
  have up: "hoverOpacity hex \<le> hoverOpacity ?h"
    using mult_nonneg_nonneg [OF gap k(1)] step by simp
  have "(0.8 - hoverOpacity hex) * ?k \<le> (0.8 - hoverOpacity hex) * 1"
    using gap k(2) by (rule mult_left_mono [rotated])
  then have le: "hoverOpacity ?h \<le> 0.8" using step by simp
  have sh: "shouldHover ?h" using Cons.prems(2) by (simp add: updateHover_def Let_def)
  from Cons.prems(1) have "\<forall>dt\<in>set dts. 0 \<le> hoverSpeed props True * dt * 60 \<and> hoverSpeed props True * dt * 60 \<le> 1"
    by simp
  from Cons.IH [OF this sh le] up Cons.prems(3) show ?case by auto
qed

lemma trace_sorted:
  assumes "0 < hexSize props"
    and "\<forall>dt\<in>set dts. 0 \<le> hoverSpeed props True * dt * 60 \<and> hoverSpeed props True * dt * 60 \<le> 1"
    and "shouldHover hex" and "hoverOpacity hex \<le> 0.8"
  shows "sorted (map hoverOpacity (hoverTrace props c dts hex))"
  using assms(2-)
proof (induction dts arbitrary: hex)
  case Nil
  then show ?case by simp
next
  case (Cons dt dts)
  let ?h = "updateHover props c (fst c) (snd c) dt hex"
  have b: "\<forall>h\<in>set (hoverTrace props c (dt # dts) hex). hoverOpacity hex \<le> hoverOpacity h \<and> hoverOpacity h \<le> 0.8"
    using trace_bounds [OF assms(1) Cons.prems] .
  then have h1: "hoverOpacity ?h \<le> 0.8"
    by (cases dts) auto
  have sh: "shouldHover ?h" using Cons.prems(2) by (simp add: updateHover_def Let_def)
  from Cons.prems(1) have "\<forall>dt\<in>set dts. 0 \<le> hoverSpeed props True * dt * 60 \<and> hoverSpeed props True * dt * 60 \<le> 1"
    by simp
  from Cons.IH [OF this sh h1] b show ?case by auto
qed

lemma trace_gap:
  assumes "0 < hexSize props" and "shouldHover hex"
  shows "0.8 - hoverOpacity (last (hoverTrace props c dts hex))
     = (0.8 - hoverOpacity hex) * prod_list (map (\<lambda>dt. 1 - hoverSpeed props True * dt * 60) dts)"
  using assms(2)
proof (induction dts arbitrary: hex)
  case Nil
  then show ?case by simp
next
  case (Cons dt dts)
  let ?h = "updateHover props c (fst c) (snd c) dt hex"
  have sh: "shouldHover ?h" using Cons.prems by (simp add: updateHover_def Let_def)
  have ne: "hoverTrace props c dts ?h \<noteq> []" by (cases dts) simp_all
  have step: "0.8 - hoverOpacity ?h = (0.8 - hoverOpacity hex) * (1 - hoverSpeed props True * dt * 60)"
    using hover_center_step [OF Cons.prems assms(1)] by (simp add: algebra_simps)
  show ?case using Cons.IH [OF sh] ne step by (simp add: mult.assoc)
qed

lemma trace_limit:
  assumes "0 < hexSize props" and "shouldHover hex"
    and "0 < hoverSpeed props True * dt * 60" "hoverSpeed props True * dt * 60 \<le> 1"
  shows "(\<lambda>n. hoverOpacity (last (hoverTrace props c (replicate n dt) hex))) \<longlonglongrightarrow> 0.8"
proof -
  let ?q = "1 - hoverSpeed props True * dt * 60"
  have q: "0 \<le> ?q" "?q < 1" using assms(3,4) by simp_all
  have eq: "hoverOpacity (last (hoverTrace props c (replicate n dt) hex))
      = 0.8 - (0.8 - hoverOpacity hex) * ?q ^ n" for n
    using trace_gap [OF assms(1,2), of c "replicate n dt"] by (simp add: prod_list_replicate algebra_simps)
  have "(\<lambda>n. ?q ^ n) \<longlonglongrightarrow> 0" using q by (rule LIMSEQ_realpow_zero)
  then have "(\<lambda>n. (0.8 - hoverOpacity hex) * ?q ^ n) \<longlonglongrightarrow> (0.8 - hoverOpacity hex) * 0"
    by (rule tendsto_mult_left)
  then have "(\<lambda>n. 0.8 - (0.8 - hoverOpacity hex) * ?q ^ n) \<longlonglongrightarrow> 0.8 - (0.8 - hoverOpacity hex) * 0"
    by (rule tendsto_diff [OF tendsto_const])
  then show ?thesis by (simp add: eq)
qed

section \<open>Recycling and the draw pass\<close>

lemma wrapHex_x:
  "x (fst (wrapHex props cs off hex g))
     = (if x hex - fst off < - hexWidth (hexSize props) * 3
        then x hex + hexWidth (hexSize props)
               * real_of_int (\<lceil>fst cs / hexWidth (hexSize props)\<rceil> + 4)
        else x hex)"
  by (simp add: wrapHex_def Let_def split_def reroll_fields)

lemma wrapHex_y:
  "y (fst (wrapHex props cs off hex g))
     = (if y hex - snd off < - hexHeight (hexSize props) * 3
        then y hex + verticalSpacing (hexSize props)
               * real_of_int (\<lceil>snd cs / verticalSpacing (hexSize props)\<rceil> + 4)
        else y hex)"
  by (simp add: wrapHex_def Let_def split_def reroll_fields)

lemma wrapHex_cleared:
  assumes "x hex - fst off < - hexWidth (hexSize props) * 3
         \<or> y hex - snd off < - hexHeight (hexSize props) * 3"
  shows "color (fst (wrapHex props cs off hex g)) = None"
    and "hoverOpacity (fst (wrapHex props cs off hex g)) = 0"
    and "hoverTarget (fst (wrapHex props cs off hex g)) = 0"
  using assms by (auto simp add: wrapHex_def Let_def split_def reroll_fields)

lemma wrapHex_idle:
  assumes "\<not> x hex - fst off < - hexWidth (hexSize props) * 3"
    and "\<not> y hex - snd off < - hexHeight (hexSize props) * 3"
  shows "wrapHex props cs off hex g = (hex, g)"
  using assms by (simp add: wrapHex_def Let_def)

lemma wrapHex_color: "color (fst (wrapHex props cs off hex g)) \<in> {None, color hex}"
  by (simp add: wrapHex_def Let_def split_def reroll_fields)

lemma drawCell_color: "color (fst (drawCell props cs off m wt dt hex)) = color hex"
  by (simp add: drawCell_def Let_def hover_keep updateOscillation_def)

lemma drawCell_skip:
  "offScreen props cs (x hex - fst off) (y hex - snd off)
     \<Longrightarrow> drawCell props cs off m wt dt hex = (hex, [])"
  by (simp add: drawCell_def)

lemma sqrt3_bounds: "5 / 3 < sqrt 3 \<and> sqrt 3 < 2"
proof
  have "(5 / 3 :: real) = sqrt ((5 / 3)\<^sup>2)" by simp
  also have "\<dots> < sqrt 3" by (subst real_sqrt_less_iff) (simp add: power2_eq_square)
  finally show "5 / 3 < sqrt 3" .
  have "sqrt 3 < sqrt 4" by (subst real_sqrt_less_iff) simp
  also have "sqrt 4 = 2" using real_sqrt_abs [of 2] by simp
  finally show "sqrt 3 < 2" .
qed

lemma ceiling_300: "\<lceil>300 / hexWidth 30\<rceil> = 6"
proof -
  have p: "0 < sqrt 3" by simp
  have "300 / hexWidth 30 = 10 / sqrt 3" by (simp add: hexWidth_def)
  moreover have "5 < 10 / sqrt 3" using sqrt3_bounds p by (simp add: field_simps)
  moreover have "10 / sqrt 3 \<le> 6" using sqrt3_bounds p by (simp add: field_simps)
  ultimately show ?thesis by (simp add: ceiling_eq_iff)
qed

lemma gridCols_300: "gridCols defaultProps 300 = [- 1, 0, 1, 2, 3, 4, 5, 6, 7]"
  by (simp add: gridCols_def defaultProps_def ceiling_300 upto_rec1)

text \<open>
  The step of the x wrap, counted in columns of the generated tiling: one column more
  than \<^verbatim>\<open>initializeGrid\<close> makes.
\<close>

lemma wrap_step_columns:
  assumes "0 < hexSize props" and "0 \<le> width"
  shows "real_of_int (\<lceil>width / hexWidth (hexSize props)\<rceil> + 4)
           = real (length (gridCols props width)) + 1"
proof -
  have "0 \<le> width / hexWidth (hexSize props)"
    using assms by (simp add: hexWidth_def)
  then have "- 1 < width / hexWidth (hexSize props)" by linarith
  then have "0 \<le> \<lceil>width / hexWidth (hexSize props)\<rceil>"
    by (simp only: zero_le_ceiling)
  then show ?thesis by (simp add: gridCols_def)
qed

section \<open>Grid generation and the highlight pass\<close>

lemma sset_stl_n: "sset ((stl ^^ n) g) \<subseteq> sset g"
proof (induction n)
  case 0
  show ?case by simp
next
  case (Suc n)
  have "sset (stl ((stl ^^ n) g)) \<subseteq> sset ((stl ^^ n) g)" by (rule sset_stl)
  with Suc show ?case by auto
qed

lemma createHexagon_sset: "sset (snd (createHexagon props row col g)) \<subseteq> sset g"
proof -
  have s5: "sset (stl (stl (stl (stl (stl g))))) \<subseteq> sset g"
    using sset_stl_n [of 5 g] by (simp add: numeral_eq_Suc)
  have s4: "sset (stl (stl (stl (stl g)))) \<subseteq> sset g"
    using sset_stl_n [of 4 g] by (simp add: numeral_eq_Suc)
  have s6: "sset (stl (stl (stl (stl (stl (stl g)))))) \<subseteq> sset g"
    using sset_stl_n [of 6 g] by (simp add: numeral_eq_Suc)
  show ?thesis
    using s4 s5 s6 by (simp add: createHexagon_def random_def bandOpacity_eq Let_def split_def)
qed

lemma createHexagon_position: "position (fst (createHexagon props row col g)) = cellPos props row col"
  by (simp add: createHexagon_def position_def cellPos_def Let_def split_def)

lemma pushHexagon_eq:
  "pushHexagon props row col st
     = (fst st @ [fst (createHexagon props row col (snd st))],
        snd (createHexagon props row col (snd st)))"
  by (cases st) (simp add: pushHexagon_def split_def Let_def)

lemma fold_push_sset:
  "sset (snd (fold (pushHexagon props row) cols st)) \<subseteq> sset (snd st)"
proof (induction cols arbitrary: st)
  case Nil
  show ?case by simp
next
  case (Cons col cols)
  have "sset (snd (fold (pushHexagon props row) cols (pushHexagon props row col st)))
          \<subseteq> sset (snd (pushHexagon props row col st))"
    by (rule Cons.IH)
  also have "\<dots> \<subseteq> sset (snd st)" by (simp add: pushHexagon_eq createHexagon_sset)
  finally show ?case by simp
qed

lemma fold_push_position:
  "map position (fst (fold (pushHexagon props row) cols st))
     = map position (fst st) @ map (cellPos props row) cols"
  by (induction cols arbitrary: st) (simp_all add: pushHexagon_eq createHexagon_position)

lemma fold_push_all:
  assumes "\<And>col g'. sset g' \<subseteq> A \<Longrightarrow> P (fst (createHexagon props row col g'))"
  shows "sset (snd st) \<subseteq> A \<Longrightarrow> list_all P (fst st)
           \<Longrightarrow> list_all P (fst (fold (pushHexagon props row) cols st))"
proof (induction cols arbitrary: st)
  case Nil
  then show ?case by simp
next
  case (Cons col cols)
  have "sset (snd (pushHexagon props row col st)) \<subseteq> A"
    using Cons.prems(1) createHexagon_sset [of props row col "snd st"]
    by (auto simp add: pushHexagon_eq)
  moreover have "list_all P (fst (pushHexagon props row col st))"
    using Cons.prems assms by (simp add: pushHexagon_eq)
  ultimately show ?case using Cons.IH by simp
qed

lemma fold_row_sset:
  "sset (snd (fold (gridRow props width) rows st)) \<subseteq> sset (snd st)"
proof (induction rows arbitrary: st)
  case Nil
  show ?case by simp
next
  case (Cons row rows)
  have "sset (snd (fold (gridRow props width) rows (gridRow props width row st)))
          \<subseteq> sset (snd (gridRow props width row st))"
    by (rule Cons.IH)
  also have "\<dots> \<subseteq> sset (snd st)" by (simp add: gridRow_def fold_push_sset)
  finally show ?case by simp
qed

lemma fold_row_position:
  "map position (fst (fold (gridRow props width) rows st))
     = map position (fst st)
       @ concat (map (\<lambda>row. map (cellPos props row) (gridCols props width)) rows)"
  by (induction rows arbitrary: st) (simp_all add: gridRow_def fold_push_position)

lemma fold_row_all:
  assumes "\<And>row col g'. sset g' \<subseteq> A \<Longrightarrow> P (fst (createHexagon props row col g'))"
  shows "sset (snd st) \<subseteq> A \<Longrightarrow> list_all P (fst st)
           \<Longrightarrow> list_all P (fst (fold (gridRow props width) rows st))"
proof (induction rows arbitrary: st)
  case Nil
  then show ?case by simp
next
  case (Cons row rows)
  have "sset (snd (gridRow props width row st)) \<subseteq> A"
    using Cons.prems(1) fold_push_sset [of props row "gridCols props width" st]
    by (auto simp add: gridRow_def)
  moreover have "list_all P (fst (gridRow props width row st))"
    unfolding gridRow_def using assms Cons.prems by (rule fold_push_all)
  ultimately show ?case using Cons.IH by simp
qed

lemma paint_position: "position (paint c op hex) = position hex"
  by (simp add: paint_def position_def)

lemma update_paint_position:
  assumes "n < length hexagons"
  shows "map position (hexagons[n := paint c op (hexagons ! n)]) = map position hexagons"
proof -
  have "map position (hexagons[n := paint c op (hexagons ! n)])
      = (map position hexagons)[n := map position hexagons ! n]"
    using assms by (simp add: map_update paint_position)
  then show ?thesis by simp
qed

lemma update_paint_all:
  assumes "list_all Q hexagons" and "n < length hexagons" and "Q (paint c op (hexagons ! n))"
  shows "list_all Q (hexagons[n := paint c op (hexagons ! n)])"
  using assms set_update_subset_insert [of hexagons n "paint c op (hexagons ! n)"]
  by (auto simp add: list_all_iff)

lemma bandOpacity_sset: "sset (snd (bandOpacity g)) \<subseteq> sset g"
  by (simp add: bandOpacity_eq sset_stl)

lemma colorNeighbor_eq:
  "colorNeighbor idx c totalHexagons j (hexagons, colored, g)
     = (let n = idx + (int j + 1) * (if shd g > 0.5 then 1 else - 1)
        in if n \<ge> 0 \<and> n < totalHexagons \<and> n \<notin> colored
           then (hexagons[nat n := paint c (fst (bandOpacity (stl g))) (hexagons ! nat n)],
                 insert n colored, snd (bandOpacity (stl g)))
           else (hexagons, colored, stl g))"
  by (simp add: colorNeighbor_def random_def Let_def split_def)

lemma colorNeighbor_inv:
  assumes paintQ: "\<And>h op c. Q h \<Longrightarrow> 0.05 \<le> op \<Longrightarrow> op < 0.4 \<Longrightarrow> Q (paint c op h)"
    and A: "A \<subseteq> {0..<1}"
    and inv: "colorInv M A Q st"
    and total: "totalHexagons = int (length M)"
  shows "colorInv M A Q (colorNeighbor idx c totalHexagons j st)"
proof -
  obtain hexagons colored g where st: "st = (hexagons, colored, g)" by (cases st) auto
  from inv st have m: "map position hexagons = M" and g: "sset g \<subseteq> A" and q: "list_all Q hexagons"
    by (simp_all add: colorInv_def)
  from m have len: "length hexagons = length M" by (metis length_map)
  let ?g1 = "stl g"
  have g1: "sset ?g1 \<subseteq> A" using g sset_stl [of g] by blast
  then have v1: "validRng ?g1" using A by (auto simp add: validRng_def)
  define n where "n = idx + (int j + 1) * (if shd g > 0.5 then 1 else - 1)"
  have eq: "colorNeighbor idx c totalHexagons j st
      = (if n \<ge> 0 \<and> n < totalHexagons \<and> n \<notin> colored
         then (hexagons[nat n := paint c (fst (bandOpacity ?g1)) (hexagons ! nat n)],
               insert n colored, snd (bandOpacity ?g1))
         else (hexagons, colored, ?g1))"
    unfolding st colorNeighbor_eq n_def Let_def ..
  show ?thesis
  proof (cases "n \<ge> 0 \<and> n < totalHexagons \<and> n \<notin> colored")
    case False
    then have "colorNeighbor idx c totalHexagons j st = (hexagons, colored, ?g1)"
      unfolding eq by (rule if_not_P)
    then show ?thesis
      using m g1 q by (simp add: colorInv_def)
  next
    case True
    then have res: "colorNeighbor idx c totalHexagons j st
        = (hexagons[nat n := paint c (fst (bandOpacity ?g1)) (hexagons ! nat n)],
           insert n colored, snd (bandOpacity ?g1))"
      unfolding eq by (rule if_P)
    from True have n: "nat n < length hexagons" using total len by linarith
    have g2: "sset (snd (bandOpacity ?g1)) \<subseteq> A"
      using bandOpacity_sset [of ?g1] g1 by blast
    have "Q (hexagons ! nat n)" using q n by (simp add: list_all_length)
    then have "Q (paint c (fst (bandOpacity ?g1)) (hexagons ! nat n))"
      using bandOpacity_range [OF v1] paintQ by blast
    with q n have "list_all Q (hexagons[nat n := paint c (fst (bandOpacity ?g1)) (hexagons ! nat n)])"
      by (rule update_paint_all)
    with m g2 n show ?thesis
      by (simp add: res colorInv_def update_paint_position)
  qed
qed

lemma fold_colorNeighbor_inv:
  assumes paintQ: "\<And>h op c. Q h \<Longrightarrow> 0.05 \<le> op \<Longrightarrow> op < 0.4 \<Longrightarrow> Q (paint c op h)"
    and A: "A \<subseteq> {0..<1}"
    and total: "totalHexagons = int (length M)"
  shows "colorInv M A Q st \<Longrightarrow> colorInv M A Q (fold (colorNeighbor idx c totalHexagons) js st)"
proof (induction js arbitrary: st)
  case Nil
  then show ?case by simp
next
  case (Cons j js)
  have "colorInv M A Q (colorNeighbor idx c totalHexagons j st)"
    using paintQ A Cons.prems total by (rule colorNeighbor_inv)
  then show ?case using Cons.IH by simp
qed

lemma floor_index:
  assumes "0 \<le> r" "r < 1" "0 < n"
  shows "0 \<le> \<lfloor>r * real_of_int n\<rfloor> \<and> \<lfloor>r * real_of_int n\<rfloor> < n"
proof
  from assms show "0 \<le> \<lfloor>r * real_of_int n\<rfloor>" by simp
  have "r * real_of_int n < 1 * real_of_int n"
    using assms by (intro mult_strict_right_mono) simp_all
  then show "\<lfloor>r * real_of_int n\<rfloor> < n" by (simp add: floor_less_iff)
qed

lemma colorSeed_eq:
  "colorSeed totalHexagons (hexagons, colored, g)
     = (let idx = \<lfloor>shd g * real_of_int totalHexagons\<rfloor>;
            c = (if shd (stl g) > 0.5 then Red else Green);
            g2 = stl (stl g)
        in if idx \<in> colored then Inr (hexagons, colored, stl g)
           else if idx < 0 \<or> idx \<ge> int (length hexagons) then Inl TypeError
           else Inr (fold (colorNeighbor idx c totalHexagons)
                       [0..<(if shd (snd (bandOpacity g2)) > 0.5 then 1 else 2)]
                       (hexagons[nat idx := paint c (fst (bandOpacity g2)) (hexagons ! nat idx)],
                        insert idx colored, stl (snd (bandOpacity g2)))))"
  by (simp add: colorSeed_def random_def Let_def split_def del: fold_simps upt.simps)

lemma colorSeed_inv:
  assumes paintQ: "\<And>h op c. Q h \<Longrightarrow> 0.05 \<le> op \<Longrightarrow> op < 0.4 \<Longrightarrow> Q (paint c op h)"
    and A: "A \<subseteq> {0..<1}"
    and inv: "colorInv M A Q st"
    and total: "totalHexagons = int (length M)" "0 < totalHexagons"
  shows "\<exists>st'. colorSeed totalHexagons st = Inr st' \<and> colorInv M A Q st'"
proof -
  obtain hexagons colored g where st: "st = (hexagons, colored, g)" by (cases st) auto
  from inv st have m: "map position hexagons = M" and g: "sset g \<subseteq> A" and q: "list_all Q hexagons"
    by (simp_all add: colorInv_def)
  from m have len: "length hexagons = length M" by (metis length_map)
  have v: "validRng g" using g A by (auto simp add: validRng_def)
  define idx where "idx = \<lfloor>shd g * real_of_int totalHexagons\<rfloor>"
  define c where "c = (if shd (stl g) > 0.5 then Red else Green)"
  define g2 where "g2 = stl (stl g)"
  define js where "js = [0..<(if shd (snd (bandOpacity g2)) > 0.5 then 1 else 2 :: nat)]"
  have eq: "colorSeed totalHexagons st
     = (if idx \<in> colored then Inr (hexagons, colored, stl g)
        else if idx < 0 \<or> idx \<ge> int (length hexagons) then Inl TypeError
        else Inr (fold (colorNeighbor idx c totalHexagons) js
                    (hexagons[nat idx := paint c (fst (bandOpacity g2)) (hexagons ! nat idx)],
                     insert idx colored, stl (snd (bandOpacity g2)))))"
    unfolding st colorSeed_eq idx_def c_def g2_def js_def Let_def ..
  have idx: "0 \<le> idx \<and> idx < totalHexagons"
    unfolding idx_def using validRng_shd [OF v] total(2) by (intro floor_index) simp_all
  have g1: "sset (stl g) \<subseteq> A" using g sset_stl [of g] by blast
  show ?thesis
  proof (cases "idx \<in> colored")
    case True
    then have "colorSeed totalHexagons st = Inr (hexagons, colored, stl g)"
      unfolding eq by (rule if_P)
    then show ?thesis using m g1 q by (simp add: colorInv_def)
  next
    case False
    have g2: "sset g2 \<subseteq> A" unfolding g2_def using g1 sset_stl [of "stl g"] by blast
    then have v2: "validRng g2" using A by (auto simp add: validRng_def)
    let ?op = "fst (bandOpacity g2)"
    let ?g3 = "snd (bandOpacity g2)"
    have g3: "sset ?g3 \<subseteq> A" using bandOpacity_sset [of g2] g2 by blast
    have g4: "sset (stl ?g3) \<subseteq> A" using g3 sset_stl [of ?g3] by blast
    have n: "nat idx < length hexagons" using idx total(1) len by linarith
    have "Q (hexagons ! nat idx)" using q n by (simp add: list_all_length)
    then have "Q (paint c ?op (hexagons ! nat idx))"
      using bandOpacity_range [OF v2] paintQ by blast
    with q n have "list_all Q (hexagons[nat idx := paint c ?op (hexagons ! nat idx)])"
      by (rule update_paint_all)
    then have i1: "colorInv M A Q (hexagons[nat idx := paint c ?op (hexagons ! nat idx)],
                     insert idx colored, stl ?g3)"
      using m g4 n by (simp add: colorInv_def update_paint_position)
    have i2: "colorInv M A Q (fold (colorNeighbor idx c totalHexagons) js
                (hexagons[nat idx := paint c ?op (hexagons ! nat idx)], insert idx colored, stl ?g3))"
      using paintQ A total(1) i1 by (rule fold_colorNeighbor_inv)
    have noerr: "\<not> (idx < 0 \<or> idx \<ge> int (length hexagons))"
      using idx total(1) len by linarith
    have "colorSeed totalHexagons st
        = Inr (fold (colorNeighbor idx c totalHexagons) js
                 (hexagons[nat idx := paint c ?op (hexagons ! nat idx)], insert idx colored, stl ?g3))"
      unfolding eq using False noerr by (simp only: if_False)
    with i2 show ?thesis by blast
  qed
qed

lemma colorLoop_inv:
  assumes paintQ: "\<And>h op c. Q h \<Longrightarrow> 0.05 \<le> op \<Longrightarrow> op < 0.4 \<Longrightarrow> Q (paint c op h)"
    and A: "A \<subseteq> {0..<1}"
    and total: "totalHexagons = int (length M)" "0 < totalHexagons \<or> n = 0"
  shows "colorInv M A Q st
     \<Longrightarrow> \<exists>st'. colorLoop n totalHexagons st = Inr st' \<and> colorInv M A Q st'"
  using total(2)
proof (induction n arbitrary: st)
  case 0
  then show ?case by simp
next
  case (Suc n)
  then have pos: "0 < totalHexagons" by simp
  from colorSeed_inv [OF paintQ A Suc.prems(1) total(1) pos]
  obtain st1 where s: "colorSeed totalHexagons st = Inr st1" and i: "colorInv M A Q st1"
    by blast
  from Suc.IH [OF i] pos obtain st' where "colorLoop n totalHexagons st1 = Inr st'" "colorInv M A Q st'"
    by blast
  with s show ?case by simp
qed

lemma initializeGrid_inv:
  assumes createQ: "\<And>row col g'. sset g' \<subseteq> A \<Longrightarrow> Q (fst (createHexagon props row col g'))"
    and paintQ: "\<And>h op c. Q h \<Longrightarrow> 0.05 \<le> op \<Longrightarrow> op < 0.4 \<Longrightarrow> Q (paint c op h)"
    and A: "A \<subseteq> {0..<1}" and g: "sset g \<subseteq> A"
  shows "\<exists>hexagons g'. initializeGrid props width height g = Inr (hexagons, g')
           \<and> list_all Q hexagons \<and> sset g' \<subseteq> A
           \<and> map position hexagons = gridPositions props width height"
proof -
  define base where "base = fold (gridRow props width) (gridRows props height) ([], g)"
  define M where "M = gridPositions props width height"
  have pos: "map position (fst base) = M"
    unfolding base_def M_def gridPositions_def by (simp add: fold_row_position)
  have rng: "sset (snd base) \<subseteq> A"
    unfolding base_def using fold_row_sset [of props width "gridRows props height" "([], g)"] g by auto
  have all: "list_all Q (fst base)"
    unfolding base_def using createQ by (rule fold_row_all) (use g in simp_all)
  have inv: "colorInv M A Q (fst base, {}, snd base)"
    using pos rng all by (simp add: colorInv_def)
  define total where "total = int (length (fst base))"
  have t: "total = int (length M)" unfolding total_def using pos by (metis length_map)
  define n where "n = nat \<lfloor>real_of_int total * 0.01\<rfloor>"
  have "0 < total \<or> n = 0" unfolding n_def total_def by auto
  from colorLoop_inv [OF paintQ A t this inv]
  obtain st' where loop: "colorLoop n total (fst base, {}, snd base) = Inr st'"
    and inv': "colorInv M A Q st'" by blast
  obtain hexagons colored g' where st': "st' = (hexagons, colored, g')" by (cases st') auto
  have "initializeGrid props width height g = Inr (hexagons, g')"
    using loop unfolding st' n_def total_def base_def
    by (simp add: initializeGrid_def Let_def split_def)
  with inv' show ?thesis unfolding st' M_def by (simp add: colorInv_def)
qed

lemma length_gridCols:
  "length (gridCols props width) = nat (\<lceil>width / hexWidth (hexSize props)\<rceil> + 3)"
  by (simp add: gridCols_def)

lemma length_gridRows:
  "length (gridRows props height) = nat (\<lceil>height / verticalSpacing (hexSize props)\<rceil> + 3)"
  by (simp add: gridRows_def)

lemma length_concat_rows:
  "length (concat (map (\<lambda>row. map (F row) cols) rows)) = length rows * length cols"
  by (induction rows) simp_all

lemma length_gridPositions:
  "length (gridPositions props width height)
     = length (gridRows props height) * length (gridCols props width)"
  unfolding gridPositions_def by (rule length_concat_rows)

lemma ceiling_300_rows: "\<lceil>300 / verticalSpacing 30\<rceil> = 7"
  by (simp add: verticalSpacing_def hexHeight_def ceiling_eq_iff)

lemma grid_300_length:
  assumes "hexSize props = 30"
  shows "length (gridPositions props 300 300) = 90"
  by (simp add: length_gridPositions length_gridCols length_gridRows assms ceiling_300 ceiling_300_rows)

lemma initializeGrid_hexagonsOf:
  assumes createQ: "\<And>row col g'. sset g' \<subseteq> A \<Longrightarrow> Q (fst (createHexagon props row col g'))"
    and paintQ: "\<And>h op c. Q h \<Longrightarrow> 0.05 \<le> op \<Longrightarrow> op < 0.4 \<Longrightarrow> Q (paint c op h)"
    and A: "A \<subseteq> {0..<1}" and g: "sset g \<subseteq> A"
  shows "initializeGrid props width height g \<noteq> Inl TypeError
       \<and> list_all Q (hexagonsOf (initializeGrid props width height g))
       \<and> map position (hexagonsOf (initializeGrid props width height g))
           = gridPositions props width height"
  using initializeGrid_inv [of A Q props g width height, OF createQ paintQ A g]
  by (auto simp add: hexagonsOf_def)

lemma length_hexagonsOf:
  assumes "validRng g"
  shows "length (hexagonsOf (initializeGrid props width height g))
           = length (gridPositions props width height)"
proof -
  have "map position (hexagonsOf (initializeGrid props width height g))
           = gridPositions props width height"
    using initializeGrid_hexagonsOf [of "{0..<1}" "\<lambda>h. True" props g width height] assms
    by (simp add: validRng_def)
  then show ?thesis by (metis length_map)
qed

lemma draws_in:
  assumes "sset g \<subseteq> A"
  shows "shd g \<in> A" "shd (stl g) \<in> A" "shd (stl (stl g)) \<in> A" "shd (stl (stl (stl g))) \<in> A"
proof -
  have "shd ((stl ^^ n) g) \<in> A" for n
    using shd_sset [of "(stl ^^ n) g"] sset_stl_n [of n g] assms by blast
  from this [of 0] this [of 1] this [of 2] this [of 3]
  show "shd g \<in> A" "shd (stl g) \<in> A" "shd (stl (stl g)) \<in> A" "shd (stl (stl (stl g))) \<in> A"
    by (simp_all add: numeral_eq_Suc)
qed

lemma initializeGrid_small:
  assumes "length (gridPositions props width height) < 100"
  shows "initializeGrid props width height g
           = Inr (fold (gridRow props width) (gridRows props height) ([], g))"
proof -
  define base where "base = fold (gridRow props width) (gridRows props height) ([], g)"
  have "map position (fst base) = gridPositions props width height"
    unfolding base_def gridPositions_def by (simp add: fold_row_position)
  then have "length (fst base) = length (gridPositions props width height)" by (metis length_map)
  with assms have "length (fst base) < 100" by simp
  then have "\<lfloor>real_of_int (int (length (fst base))) * 0.01\<rfloor> = 0" by (simp add: floor_eq_iff)
  then show ?thesis
    unfolding base_def by (simp add: initializeGrid_def Let_def split_def)
qed

lemma createHexagon_no_hover:
  assumes "sset g \<subseteq> {0..<1}" and "staticHexChance props = 0"
  shows "\<not> shouldHover (fst (createHexagon props row col g))
       \<and> color (fst (createHexagon props row col g)) = None
       \<and> hoverOpacity (fst (createHexagon props row col g)) = 0
       \<and> hoverTarget (fst (createHexagon props row col g)) = 0
       \<and> (if shouldOscillate (fst (createHexagon props row col g))
              \<or> isStatic (fst (createHexagon props row col g))
           then 0.05 \<le> opacity (fst (createHexagon props row col g))
                \<and> opacity (fst (createHexagon props row col g)) < 0.4
           else opacity (fst (createHexagon props row col g)) = 0)"
  using draws_in [OF assms(1)] assms(2)
  by (simp add: createHexagon_def random_def bandOpacity_eq Let_def split_def)

lemma createHexagon_inert:
  assumes "sset g \<subseteq> {0.002..<1}" and "staticHexChance props = 0"
  shows "inert (fst (createHexagon props row col g)) \<and> opacity (fst (createHexagon props row col g)) = 0"
  using draws_in [OF assms(1)] assms(2)
  by (simp add: createHexagon_def random_def bandOpacity_eq Let_def split_def inert_def)

lemma createHexagon_zero_draws:
  assumes "sset g \<subseteq> {0}"
  shows "shouldOscillate (fst (createHexagon props row col g))
       \<and> opacity (fst (createHexagon props row col g)) = 0.05"
  using draws_in [OF assms(1)]
  by (simp add: createHexagon_def random_def bandOpacity_eq Let_def split_def)

lemma small_grid_all:
  assumes "length (gridPositions props width height) < 100"
    and "\<And>row col g'. sset g' \<subseteq> A \<Longrightarrow> P (fst (createHexagon props row col g'))"
    and "sset g \<subseteq> A"
  shows "list_all P (hexagonsOf (initializeGrid props width height g))
       \<and> length (hexagonsOf (initializeGrid props width height g))
           = length (gridPositions props width height)"
proof -
  define base where "base = fold (gridRow props width) (gridRows props height) ([], g)"
  have eq: "hexagonsOf (initializeGrid props width height g) = fst base"
    unfolding base_def initializeGrid_small [OF assms(1)] by (simp add: hexagonsOf_def split_def)
  have "list_all P (fst base)"
    unfolding base_def using assms(2) by (rule fold_row_all) (use assms(3) in simp_all)
  moreover have "map position (fst base) = gridPositions props width height"
    unfolding base_def gridPositions_def by (simp add: fold_row_position)
  then have "length (fst base) = length (gridPositions props width height)" by (metis length_map)
  ultimately show ?thesis by (simp add: eq)
qed

lemma createHexagon_bandOK:
  assumes "sset g \<subseteq> {0..<1}"
  shows "bandOK (fst (createHexagon props row col g))"
  using draws_in [OF assms(1)]
  by (simp add: createHexagon_def random_def bandOpacity_eq Let_def split_def bandOK_def inBand_def)

lemma paint_bandOK: "0.05 \<le> op \<Longrightarrow> op < 0.4 \<Longrightarrow> bandOK (paint c op hex)"
  by (simp add: paint_def bandOK_def inBand_def)

lemma initializeGrid_bandOK:
  assumes "validRng g"
  shows "list_all bandOK (hexagonsOf (initializeGrid props width height g))"
  using initializeGrid_hexagonsOf [of "{0..<1}" bandOK props g width height]
    createHexagon_bandOK paint_bandOK assms
  by (simp add: validRng_def)

lemma hexSize_zeroChance: "hexSize zeroChanceProps = 30" "staticHexChance zeroChanceProps = 0"
  by (simp_all add: zeroChanceProps_def defaultProps_def)

section \<open>The oscillation band\<close>

text \<open>
  C1. For an oscillating cell whose opacity is in the band \<open>[0.05, 0.4]\<close> and a
  non-negative delta time, the oscillation step leaves the opacity in the band; the
  direction after the step is \<open>-1\<close> when the new opacity is the upper bound \<open>0.4\<close>, \<open>+1\<close>
  when it is the lower bound \<open>0.05\<close>, and unchanged otherwise, and the opacity is at a
  bound exactly when the unclamped value \<open>opacity + rate \<cdot> direction \<cdot> dt \<cdot> 60\<close> reached
  it; a cell that the frame draws gets exactly this step. With draws in \<open>[0, 1)\<close>,
  every oscillating cell of a generated grid is in the band, and after any number of
  frames and pointer events every oscillating cell of the component is still in the
  band.
\<close>

theorem oscillation_stays_in_band:
  "(shouldOscillate hex \<and> inBand hex \<and> 0 \<le> deltaTime \<longrightarrow>
      inBand (updateOscillation deltaTime hex)
      \<and> oscillationDirection (updateOscillation deltaTime hex)
          = (if opacity (updateOscillation deltaTime hex) = 0.4 then - 1
             else if opacity (updateOscillation deltaTime hex) = 0.05 then 1
             else oscillationDirection hex)
      \<and> (opacity (updateOscillation deltaTime hex) = 0.4 \<longleftrightarrow>
           opacity hex + oscillationRate hex * oscillationDirection hex * deltaTime * 60 \<ge> 0.4)
      \<and> (opacity (updateOscillation deltaTime hex) = 0.05 \<longleftrightarrow>
           opacity hex + oscillationRate hex * oscillationDirection hex * deltaTime * 60 \<le> 0.05)
      \<and> (\<not> offScreen props cs (x hex - fst off) (y hex - snd off) \<longrightarrow>
           opacity (fst (drawCell props cs off m wt deltaTime hex))
             = opacity (updateOscillation deltaTime hex)
           \<and> oscillationDirection (fst (drawCell props cs off m wt deltaTime hex))
             = oscillationDirection (updateOscillation deltaTime hex)))
   \<and> (validRng (rngState st) \<and> list_all bandOK (hexagonsRef st) \<longrightarrow>
        list_all bandOK (hexagonsRef (runEvents props st evs)))
   \<and> (validRng g \<longrightarrow> list_all bandOK (hexagonsOf (initializeGrid props width height g)))"
proof (intro conjI impI)
  assume a: "shouldOscillate hex \<and> inBand hex \<and> 0 \<le> deltaTime"
  then show "inBand (updateOscillation deltaTime hex)" by (simp add: osc_step)
  from a show "oscillationDirection (updateOscillation deltaTime hex)
          = (if opacity (updateOscillation deltaTime hex) = 0.4 then - 1
             else if opacity (updateOscillation deltaTime hex) = 0.05 then 1
             else oscillationDirection hex)"
    by (simp add: updateOscillation_def Let_def)
  from a show "(opacity (updateOscillation deltaTime hex) = 0.4) =
           (opacity hex + oscillationRate hex * oscillationDirection hex * deltaTime * 60 \<ge> 0.4)"
    by (simp add: updateOscillation_def Let_def)
  from a show "(opacity (updateOscillation deltaTime hex) = 0.05) =
           (opacity hex + oscillationRate hex * oscillationDirection hex * deltaTime * 60 \<le> 0.05)"
    by (simp add: updateOscillation_def Let_def)
next
  assume "\<not> offScreen props cs (x hex - fst off) (y hex - snd off)"
  then show "opacity (fst (drawCell props cs off m wt deltaTime hex))
             = opacity (updateOscillation deltaTime hex)"
    by (simp add: drawCell_def Let_def hover_keep)
next
  assume "\<not> offScreen props cs (x hex - fst off) (y hex - snd off)"
  then show "oscillationDirection (fst (drawCell props cs off m wt deltaTime hex))
             = oscillationDirection (updateOscillation deltaTime hex)"
    by (simp add: drawCell_def Let_def hover_keep)
next
  assume "validRng (rngState st) \<and> list_all bandOK (hexagonsRef st)"
  then show "list_all bandOK (hexagonsRef (runEvents props st evs))"
    using runEvents_bandOK [of st props evs] by simp
next
  assume "validRng g"
  then show "list_all bandOK (hexagonsOf (initializeGrid props width height g))"
    by (rule initializeGrid_bandOK)
qed

theorem oscillation_stays_in_band_witness:
  "shouldOscillate brightHex \<and> inBand brightHex \<and> (0::real) \<le> 1 / 60
   \<and> \<not> offScreen defaultProps (300, 300) (x brightHex - fst (0, 0 :: real)) (y brightHex - snd (0 :: real, 0))
   \<and> validRng (rngState sampleState) \<and> list_all bandOK (hexagonsRef sampleState)
   \<and> inBand (updateOscillation (1 / 60) brightHex)
   \<and> opacity (updateOscillation (1 / 60) brightHex) = 0.4
   \<and> oscillationDirection (updateOscillation (1 / 60) brightHex) = - 1
   \<and> opacity (fst (drawCell defaultProps (300, 300) (0, 0) (- 1000, - 1000) 0 (1 / 60) brightHex)) = 0.4
   \<and> list_all bandOK (hexagonsRef (runEvents defaultProps sampleState
        [AnimationFrame 16, MouseMove 100 90, AnimationFrame 10000]))
   \<and> validRng (sconst 0)
   \<and> list_all bandOK (hexagonsOf (initializeGrid defaultProps 300 300 (sconst 0)))"
proof -
  have h1: "shouldOscillate brightHex \<and> inBand brightHex \<and> (0::real) \<le> 1 / 60"
    by (simp add: brightHex_def inBand_def)
  have ar: "\<not> 100 < - w \<and> \<not> 200 + w < 0" if "0 \<le> w" for w :: real
    using that by auto
  have h2: "\<not> offScreen defaultProps (300, 300) (x brightHex - fst (0, 0 :: real)) (y brightHex - snd (0 :: real, 0))"
    using ar [of "30 * sqrt 3"]
    by (simp add: offScreen_def brightHex_def defaultProps_def hexWidth_def hexHeight_def)
  have h3: "validRng (rngState sampleState) \<and> list_all bandOK (hexagonsRef sampleState)"
    by (simp add: sampleState_def validRng_def bandOK_def inBand_def brightHex_def)
  have ev: "opacity (updateOscillation (1 / 60) brightHex) = 0.4"
    by (simp add: updateOscillation_def brightHex_def)
  have h4: "validRng (sconst 0)" by (simp add: validRng_sconst)
  from oscillation_stays_in_band [of brightHex "1 / 60" defaultProps "(300, 300)" "(0, 0)"
      "(- 1000, - 1000)" 0 sampleState
      "[AnimationFrame 16, MouseMove 100 90, AnimationFrame 10000]" "sconst 0" 300 300]
    h1 h2 h3 h4 ev
  show ?thesis by simp
qed

section \<open>Generation with hover chance 0\<close>

text \<open>
  C2, as stated: with viewport 300 x 300, cell size 30 and special-behaviour probability
  0, every generated cell is inert with opacity 0 whatever the draws. When every draw
  is 0, the first of the 90 cells oscillates, with opacity \<open>0.05\<close>.
\<close>

theorem grid_zero_draws_oscillate:
  "validRng (sconst 0) \<and> hexSize zeroChanceProps = 30 \<and> staticHexChance zeroChanceProps = 0
   \<and> length (hexagonsOf (initializeGrid zeroChanceProps 300 300 (sconst 0))) = 90
   \<and> shouldOscillate (hexagonsOf (initializeGrid zeroChanceProps 300 300 (sconst 0)) ! 0)
   \<and> opacity (hexagonsOf (initializeGrid zeroChanceProps 300 300 (sconst 0)) ! 0) = 0.05"
proof -
  let ?hs = "hexagonsOf (initializeGrid zeroChanceProps 300 300 (sconst 0))"
  have n: "length (gridPositions zeroChanceProps 300 300) = 90"
    by (rule grid_300_length) (rule hexSize_zeroChance)
  then have small: "length (gridPositions zeroChanceProps 300 300) < 100" by simp
  have "list_all (\<lambda>h. shouldOscillate h \<and> opacity h = 0.05) ?hs
      \<and> length ?hs = length (gridPositions zeroChanceProps 300 300)"
    using small
  proof (rule small_grid_all)
    show "sset (sconst 0 :: rng) \<subseteq> {0}" by simp
  qed (rule createHexagon_zero_draws)
  with n have "length ?hs = 90" "shouldOscillate (?hs ! 0) \<and> opacity (?hs ! 0) = 0.05"
    by (simp_all add: list_all_length)
  then show ?thesis by (simp add: hexSize_zeroChance validRng_sconst)
qed

text \<open>
  C2, amended. With viewport 300 x 300, cell size 30 and special-behaviour probability
  0, for every outcome of the draws the generation succeeds with 90 cells, none of them
  hover-enabled, none with a highlight colour, all with hover opacity and target 0; the
  opacity of a cell is 0 when it neither oscillates nor is static and lies in
  \<open>[0.05, 0.4)\<close> when it does; and when no draw is below \<open>0.002\<close> every cell is inert
  with opacity 0.
\<close>

theorem grid_zero_chance:
  assumes "validRng g" and "hexSize props = 30" and "staticHexChance props = 0"
  shows "initializeGrid props 300 300 g \<noteq> Inl TypeError
       \<and> length (hexagonsOf (initializeGrid props 300 300 g)) = 90
       \<and> (\<forall>h\<in>set (hexagonsOf (initializeGrid props 300 300 g)).
            \<not> shouldHover h \<and> color h = None \<and> hoverOpacity h = 0 \<and> hoverTarget h = 0
            \<and> (if shouldOscillate h \<or> isStatic h then 0.05 \<le> opacity h \<and> opacity h < 0.4
                else opacity h = 0))
       \<and> ((\<forall>r\<in>sset g. 0.002 \<le> r) \<longrightarrow>
            (\<forall>h\<in>set (hexagonsOf (initializeGrid props 300 300 g)). inert h \<and> opacity h = 0))"
proof -
  let ?hs = "hexagonsOf (initializeGrid props 300 300 g)"
  have n: "length (gridPositions props 300 300) = 90"
    using assms(2) by (rule grid_300_length)
  then have small: "length (gridPositions props 300 300) < 100" by simp
  have g: "sset g \<subseteq> {0..<1}" using assms(1) by (simp add: validRng_def)
  have ok: "initializeGrid props 300 300 g \<noteq> Inl TypeError"
    by (simp add: initializeGrid_small [OF small])
  have a: "list_all (\<lambda>h. \<not> shouldHover h \<and> color h = None \<and> hoverOpacity h = 0
        \<and> hoverTarget h = 0
        \<and> (if shouldOscillate h \<or> isStatic h then 0.05 \<le> opacity h \<and> opacity h < 0.4
            else opacity h = 0)) ?hs
      \<and> length ?hs = length (gridPositions props 300 300)"
    using small
  proof (rule small_grid_all)
    show "sset g \<subseteq> {0..<1}" by (rule g)
  qed (rule createHexagon_no_hover [OF _ assms(3)])
  from a n have len: "length ?hs = 90" by simp
  from a have b: "\<forall>h\<in>set ?hs. \<not> shouldHover h \<and> color h = None \<and> hoverOpacity h = 0
        \<and> hoverTarget h = 0
        \<and> (if shouldOscillate h \<or> isStatic h then 0.05 \<le> opacity h \<and> opacity h < 0.4
            else opacity h = 0)"
    unfolding list_all_iff by blast
  have c: "\<forall>h\<in>set ?hs. inert h \<and> opacity h = 0" if "\<forall>r\<in>sset g. 0.002 \<le> r"
  proof -
    from that g have g': "sset g \<subseteq> {0.002..<1}" by auto
    have "list_all (\<lambda>h. inert h \<and> opacity h = 0) ?hs
        \<and> length ?hs = length (gridPositions props 300 300)"
      using small
    proof (rule small_grid_all)
      show "sset g \<subseteq> {0.002..<1}" by (rule g')
    qed (rule createHexagon_inert [OF _ assms(3)])
    then show ?thesis by (simp add: list_all_iff)
  qed
  from ok len b c show ?thesis by blast
qed

theorem grid_zero_chance_witness:
  "validRng (sconst (1 / 2)) \<and> hexSize zeroChanceProps = 30 \<and> staticHexChance zeroChanceProps = 0
   \<and> sset (sconst (1 / 2 :: real)) \<subseteq> {0.002..}
   \<and> initializeGrid zeroChanceProps 300 300 (sconst (1 / 2)) \<noteq> Inl TypeError
   \<and> length (hexagonsOf (initializeGrid zeroChanceProps 300 300 (sconst (1 / 2)))) = 90
   \<and> inert (hexagonsOf (initializeGrid zeroChanceProps 300 300 (sconst (1 / 2))) ! 0)
   \<and> opacity (hexagonsOf (initializeGrid zeroChanceProps 300 300 (sconst (1 / 2))) ! 0) = 0"
proof -
  let ?hs = "hexagonsOf (initializeGrid zeroChanceProps 300 300 (sconst (1 / 2)))"
  have h1: "validRng (sconst (1 / 2))" by (simp add: validRng_sconst)
  have h2: "sset (sconst (1 / 2 :: real)) \<subseteq> {0.002..}" by simp
  then have h3: "\<forall>r\<in>sset (sconst (1 / 2 :: real)). 0.002 \<le> r" by simp
  note th = grid_zero_chance [OF h1 hexSize_zeroChance]
  from th have len: "length ?hs = 90" by blast
  then have "?hs ! 0 \<in> set ?hs" by simp
  with th h3 have "inert (?hs ! 0) \<and> opacity (?hs ! 0) = 0" by blast
  with th h1 h2 len show ?thesis by (simp add: hexSize_zeroChance)
qed

section \<open>Hover ease rates\<close>

text \<open>
  C3, as stated: the ease rate is strictly greater while the pointer is inside the cell
  than while it is outside. With the default props the rate inside is \<open>0.15\<close> and the
  rate outside is \<open>0.3\<close>.
\<close>

theorem hover_entry_not_faster:
  "\<not> hoverSpeed defaultProps True > hoverSpeed defaultProps False"
  by (simp add: hoverSpeed_def defaultProps_def)

text \<open>
  C3, amended. The ease rate while the pointer is inside the cell is half the rate while
  it is outside, hence strictly smaller for a positive \<open>hoverDelay\<close>; each frame
  multiplies the distance of \<open>hoverOpacity\<close> to its target by
  \<open>1 - rate \<cdot> deltaTime \<cdot> 60\<close>, so for equal frame times entering closes per frame half
  the fraction of the distance that leaving closes.
\<close>

theorem hover_ease_rates:
  "hoverSpeed props True = hoverSpeed props False / 2
   \<and> (0 < hoverDelay props \<longrightarrow> hoverSpeed props True < hoverSpeed props False)
   \<and> (shouldHover hex \<longrightarrow>
        hoverTarget (updateHover props m sx sy dt hex) - hoverOpacity (updateHover props m sx sy dt hex)
        = (hoverTarget (updateHover props m sx sy dt hex) - hoverOpacity hex)
          * (1 - hoverSpeed props (isPointInHexagon (fst m) (snd m) sx sy (hexSize props)) * dt * 60))"
  using hover_gap [of hex props m sx sy dt] by (simp add: hoverSpeed_def)

theorem hover_ease_rates_witness:
  "(0::real) < hoverDelay defaultProps \<and> shouldHover restHex
   \<and> hoverSpeed defaultProps True = 0.15 \<and> hoverSpeed defaultProps False = 0.3
   \<and> hoverSpeed defaultProps True < hoverSpeed defaultProps False
   \<and> hoverTarget (updateHover defaultProps (0, 0) 0 0 (1 / 60) restHex)
        - hoverOpacity (updateHover defaultProps (0, 0) 0 0 (1 / 60) restHex)
      = (hoverTarget (updateHover defaultProps (0, 0) 0 0 (1 / 60) restHex) - hoverOpacity restHex)
        * (1 - hoverSpeed defaultProps (isPointInHexagon (fst (0, 0 :: real)) (snd (0 :: real, 0)) 0 0 (hexSize defaultProps))
                 * (1 / 60) * 60)"
proof -
  have h: "(0::real) < hoverDelay defaultProps \<and> shouldHover restHex"
    by (simp add: defaultProps_def restHex_def)
  have v: "hoverSpeed defaultProps True = 0.15 \<and> hoverSpeed defaultProps False = 0.3"
    by (simp add: hoverSpeed_def defaultProps_def)
  from hover_ease_rates [of defaultProps restHex "(0, 0)" 0 0 "1 / 60"] h v
  show ?thesis by simp
qed

section \<open>Hover under a held pointer\<close>

text \<open>
  C4, as stated: for every sequence of positive delta times the hover opacity never
  exceeds \<open>0.8\<close> and never decreases. With the default props, a frame of one second
  followed by a frame of 50 ms takes a cell at rest to \<open>7.2\<close> and then down to \<open>4.32\<close>.
\<close>

theorem hover_overshoot:
  "hoverOpacity (hoverTrace defaultProps (0, 0) [1, 0.05] restHex ! 1) > 0.8
   \<and> hoverOpacity (hoverTrace defaultProps (0, 0) [1, 0.05] restHex ! 2)
     < hoverOpacity (hoverTrace defaultProps (0, 0) [1, 0.05] restHex ! 1)"
  by (simp add: restHex_def defaultProps_def updateHover_def isPointInHexagon_def hoverSpeed_def Let_def)

text \<open>
  C4, amended. For a hover-enabled cell that starts at hover opacity 0 under a pointer
  held at its centre, and delta times that are positive and at most
  \<open>1 / (hoverSpeed \<cdot> 60)\<close> (1/9 s with the default props), the hover opacities frame by
  frame are non-decreasing and never exceed \<open>0.8\<close>; the distance to \<open>0.8\<close> after the
  frames is \<open>0.8\<close> times the product of the factors \<open>1 - hoverSpeed \<cdot> dt \<cdot> 60\<close>, and
  with a constant such delta time the hover opacity converges to \<open>0.8\<close>.
\<close>

theorem hover_monotone_bounded:
  assumes "shouldHover hex" and "hoverOpacity hex = 0" and "0 < hexSize props"
    and "0 < hoverDelay props"
    and "\<forall>dt\<in>set deltaTimes. 0 < dt \<and> hoverSpeed props True * dt * 60 \<le> 1"
  shows "sorted (map hoverOpacity (hoverTrace props c deltaTimes hex))
       \<and> (\<forall>h\<in>set (hoverTrace props c deltaTimes hex). hoverOpacity h \<le> 0.8)
       \<and> 0.8 - hoverOpacity (last (hoverTrace props c deltaTimes hex))
           = 0.8 * prod_list (map (\<lambda>dt. 1 - hoverSpeed props True * dt * 60) deltaTimes)
       \<and> (\<forall>dt. 0 < dt \<and> hoverSpeed props True * dt * 60 \<le> 1 \<longrightarrow>
            (\<lambda>n. hoverOpacity (last (hoverTrace props c (replicate n dt) hex))) \<longlonglongrightarrow> 0.8)"
proof -
  have sp: "0 < hoverSpeed props True" using assms(4) by (simp add: hoverSpeed_def)
  have k: "\<forall>dt\<in>set deltaTimes. 0 \<le> hoverSpeed props True * dt * 60 \<and> hoverSpeed props True * dt * 60 \<le> 1"
  proof
    fix dt assume "dt \<in> set deltaTimes"
    with assms(5) have "0 < dt" "hoverSpeed props True * dt * 60 \<le> 1" by auto
    with sp show "0 \<le> hoverSpeed props True * dt * 60 \<and> hoverSpeed props True * dt * 60 \<le> 1"
      by simp
  qed
  have le: "hoverOpacity hex \<le> 0.8" using assms(2) by simp
  have "sorted (map hoverOpacity (hoverTrace props c deltaTimes hex))"
    using trace_sorted [OF assms(3) k assms(1) le] .
  moreover have "\<forall>h\<in>set (hoverTrace props c deltaTimes hex). hoverOpacity h \<le> 0.8"
    using trace_bounds [OF assms(3) k assms(1) le] by blast
  moreover have "0.8 - hoverOpacity (last (hoverTrace props c deltaTimes hex))
           = 0.8 * prod_list (map (\<lambda>dt. 1 - hoverSpeed props True * dt * 60) deltaTimes)"
    using trace_gap [OF assms(3) assms(1), of c deltaTimes] assms(2) by simp
  moreover have "\<forall>dt. 0 < dt \<and> hoverSpeed props True * dt * 60 \<le> 1 \<longrightarrow>
            (\<lambda>n. hoverOpacity (last (hoverTrace props c (replicate n dt) hex))) \<longlonglongrightarrow> 0.8"
  proof (intro allI impI)
    fix dt assume d: "0 < dt \<and> hoverSpeed props True * dt * 60 \<le> 1"
    with sp have "0 < hoverSpeed props True * dt * 60" by simp
    with d show "(\<lambda>n. hoverOpacity (last (hoverTrace props c (replicate n dt) hex))) \<longlonglongrightarrow> 0.8"
      using trace_limit [OF assms(3) assms(1)] by blast
  qed
  ultimately show ?thesis by blast
qed

theorem hover_monotone_bounded_witness:
  "shouldHover restHex \<and> hoverOpacity restHex = 0 \<and> 0 < hexSize defaultProps
   \<and> 0 < hoverDelay defaultProps
   \<and> (0::real) < 1 / 60 \<and> hoverSpeed defaultProps True * (1 / 60) * 60 \<le> 1
   \<and> (0::real) < 1 / 30 \<and> hoverSpeed defaultProps True * (1 / 30) * 60 \<le> 1
   \<and> (0::real) < 1 / 9 \<and> hoverSpeed defaultProps True * (1 / 9) * 60 \<le> 1
   \<and> sorted (map hoverOpacity (hoverTrace defaultProps (100, 90) [1 / 60, 1 / 30, 1 / 9] restHex))
   \<and> hoverOpacity (last (hoverTrace defaultProps (100, 90) [1 / 60, 1 / 30, 1 / 9] restHex)) \<le> 0.8
   \<and> (\<lambda>n. hoverOpacity (last (hoverTrace defaultProps (100, 90) (replicate n (1 / 60)) restHex)))
        \<longlonglongrightarrow> 0.8"
proof -
  have h1: "shouldHover restHex" and h2: "hoverOpacity restHex = 0"
    by (simp_all add: restHex_def)
  have h3: "0 < hexSize defaultProps" and h4: "0 < hoverDelay defaultProps"
    by (simp_all add: defaultProps_def)
  have h6: "(0::real) < 1 / 60 \<and> hoverSpeed defaultProps True * (1 / 60) * 60 \<le> 1
      \<and> (0::real) < 1 / 30 \<and> hoverSpeed defaultProps True * (1 / 30) * 60 \<le> 1
      \<and> (0::real) < 1 / 9 \<and> hoverSpeed defaultProps True * (1 / 9) * 60 \<le> 1"
    by (simp add: hoverSpeed_def defaultProps_def)
  then have h5: "\<forall>dt\<in>set [1 / 60, 1 / 30, 1 / 9]. 0 < dt \<and> hoverSpeed defaultProps True * dt * 60 \<le> 1"
    by simp
  have "last (hoverTrace defaultProps (100, 90) [1 / 60, 1 / 30, 1 / 9] restHex)
      \<in> set (hoverTrace defaultProps (100, 90) [1 / 60, 1 / 30, 1 / 9] restHex)"
    by (rule last_in_set) simp
  with hover_monotone_bounded [OF h1 h2 h3 h4 h5, of "(100, 90)"] h1 h2 h3 h4 h6
  show ?thesis by blast
qed

section \<open>Size of the generated grid\<close>

text \<open>
  C5, as stated: the number of generated cells is
  \<open>(\<lceil>W / hexWidth\<rceil> + 2) \<cdot> (\<lceil>H / verticalSpacing\<rceil> + 2)\<close>. For a 300 x 300 viewport
  and cell size 30 that product is 72, and 90 cells are generated.
\<close>

theorem grid_count_300:
  "length (hexagonsOf (initializeGrid defaultProps 300 300 (sconst 0))) = 90
   \<and> (\<lceil>300 / hexWidth (hexSize defaultProps)\<rceil> + 2)
       * (\<lceil>300 / verticalSpacing (hexSize defaultProps)\<rceil> + 2) = 72"
proof -
  have hs: "hexSize defaultProps = 30" by (simp add: defaultProps_def)
  have "length (hexagonsOf (initializeGrid defaultProps 300 300 (sconst 0)))
      = length (gridPositions defaultProps 300 300)"
    by (rule length_hexagonsOf) (simp add: validRng_sconst)
  then show ?thesis by (simp add: grid_300_length hs ceiling_300 ceiling_300_rows)
qed

text \<open>
  C5, amended. For a non-negative viewport, a positive cell size and draws in \<open>[0, 1)\<close>,
  generation succeeds with \<open>(\<lceil>W / hexWidth\<rceil> + 3) \<cdot> (\<lceil>H / verticalSpacing\<rceil> + 3)\<close> cells:
  one cell at each column \<open>-1, \<dots>, \<lceil>W / hexWidth\<rceil> + 1\<close> of each row
  \<open>-1, \<dots>, \<lceil>H / verticalSpacing\<rceil> + 1\<close>, row by row, at the position of its row and
  column.
\<close>

theorem grid_count:
  assumes "validRng g" and "0 < hexSize props" and "0 \<le> width" and "0 \<le> height"
  shows "initializeGrid props width height g \<noteq> Inl TypeError
       \<and> int (length (hexagonsOf (initializeGrid props width height g)))
           = (\<lceil>width / hexWidth (hexSize props)\<rceil> + 3)
             * (\<lceil>height / verticalSpacing (hexSize props)\<rceil> + 3)
       \<and> map position (hexagonsOf (initializeGrid props width height g))
           = concat (map (\<lambda>row. map (cellPos props row)
                                   [- 1 .. \<lceil>width / hexWidth (hexSize props)\<rceil> + 1])
                         [- 1 .. \<lceil>height / verticalSpacing (hexSize props)\<rceil> + 1])"
proof -
  have g: "sset g \<subseteq> {0..<1}" using assms(1) by (simp add: validRng_def)
  have "0 \<le> width / hexWidth (hexSize props)"
    using assms(2,3) by (simp add: hexWidth_def)
  then have "- 1 < width / hexWidth (hexSize props)" by linarith
  then have c: "0 \<le> \<lceil>width / hexWidth (hexSize props)\<rceil>"
    by (simp only: zero_le_ceiling)
  have "0 \<le> height / verticalSpacing (hexSize props)"
    using assms(2,4) by (simp add: verticalSpacing_def hexHeight_def)
  then have "- 1 < height / verticalSpacing (hexSize props)" by linarith
  then have r: "0 \<le> \<lceil>height / verticalSpacing (hexSize props)\<rceil>"
    by (simp only: zero_le_ceiling)
  have th: "initializeGrid props width height g \<noteq> Inl TypeError
       \<and> list_all (\<lambda>h. True) (hexagonsOf (initializeGrid props width height g))
       \<and> map position (hexagonsOf (initializeGrid props width height g))
           = gridPositions props width height"
    by (rule initializeGrid_hexagonsOf [of "{0..<1}"]) (simp_all add: g)
  have "int (length (hexagonsOf (initializeGrid props width height g)))
      = int (length (gridRows props height) * length (gridCols props width))"
    using length_hexagonsOf [OF assms(1)] by (simp add: length_gridPositions)
  also have "\<dots> = (\<lceil>width / hexWidth (hexSize props)\<rceil> + 3)
             * (\<lceil>height / verticalSpacing (hexSize props)\<rceil> + 3)"
    using c r by (simp add: length_gridCols length_gridRows)
  finally have count: "int (length (hexagonsOf (initializeGrid props width height g)))
      = (\<lceil>width / hexWidth (hexSize props)\<rceil> + 3)
        * (\<lceil>height / verticalSpacing (hexSize props)\<rceil> + 3)" .
  have last: "a + 2 - 1 = a + 1" for a :: int by simp
  have cols: "gridCols props width = [- 1 .. \<lceil>width / hexWidth (hexSize props)\<rceil> + 1]"
    by (simp only: gridCols_def last)
  have rows: "gridRows props height = [- 1 .. \<lceil>height / verticalSpacing (hexSize props)\<rceil> + 1]"
    by (simp only: gridRows_def last)
  from th have "map position (hexagonsOf (initializeGrid props width height g))
           = concat (map (\<lambda>row. map (cellPos props row)
                                   [- 1 .. \<lceil>width / hexWidth (hexSize props)\<rceil> + 1])
                         [- 1 .. \<lceil>height / verticalSpacing (hexSize props)\<rceil> + 1])"
    unfolding gridPositions_def cols rows by blast
  with th count show ?thesis by blast
qed

theorem grid_count_witness:
  "validRng (sconst 0) \<and> 0 < hexSize defaultProps \<and> (0::real) \<le> 300
   \<and> initializeGrid defaultProps 300 300 (sconst 0) \<noteq> Inl TypeError
   \<and> int (length (hexagonsOf (initializeGrid defaultProps 300 300 (sconst 0))))
       = (\<lceil>300 / hexWidth (hexSize defaultProps)\<rceil> + 3)
         * (\<lceil>300 / verticalSpacing (hexSize defaultProps)\<rceil> + 3)
   \<and> (\<lceil>300 / hexWidth (hexSize defaultProps)\<rceil> + 3)
         * (\<lceil>300 / verticalSpacing (hexSize defaultProps)\<rceil> + 3) = 90"
proof -
  have h1: "validRng (sconst 0)" by (simp add: validRng_sconst)
  have h2: "0 < hexSize defaultProps" by (simp add: defaultProps_def)
  have h3: "(0::real) \<le> 300" by simp
  have hs: "hexSize defaultProps = 30" by (simp add: defaultProps_def)
  have v: "(\<lceil>300 / hexWidth (hexSize defaultProps)\<rceil> + 3)
         * (\<lceil>300 / verticalSpacing (hexSize defaultProps)\<rceil> + 3) = 90"
    by (simp add: hs ceiling_300 ceiling_300_rows)
  from grid_count [OF h1 h2 h3 h3] h1 h2 h3 v show ?thesis by blast
qed

section \<open>Recycling on the x axis\<close>

text \<open>
  C6, as stated: every cell below the wrap threshold \<open>-3 \<cdot> hexWidth\<close> is at or above it
  after the recycle step, and its world x has grown by the total width of the generated
  column tiling. For a cell at world x 0 under a pan offset of 10000 on a 300 px wide
  canvas, one step moves it by \<open>10 \<cdot> hexWidth\<close>: it is still below the threshold, and
  the generated tiling has 9 columns.
\<close>

theorem wrap_far_cell:
  "x restHex - fst (10000, 0 :: real) < - hexWidth (hexSize defaultProps) * 3
   \<and> x (fst (wrapHex defaultProps (300, 300) (10000, 0) restHex (sconst 0))) - fst (10000, 0 :: real)
       < - hexWidth (hexSize defaultProps) * 3
   \<and> x (fst (wrapHex defaultProps (300, 300) (10000, 0) restHex (sconst 0))) - x restHex
       \<noteq> real (length (gridCols defaultProps 300)) * hexWidth (hexSize defaultProps)"
proof -
  have s: "0 < sqrt 3" "sqrt 3 < 2" using sqrt3_bounds by simp_all
  have hs: "hexSize defaultProps = 30" by (simp add: defaultProps_def)
  have nx: "x (fst (wrapHex defaultProps (300, 300) (10000, 0) restHex (sconst 0))) = 300 * sqrt 3"
    using s by (simp add: wrapHex_x hs ceiling_300) (simp add: hexWidth_def restHex_def)
  show ?thesis
    using s by (simp add: nx hs gridCols_300) (simp add: hexWidth_def restHex_def)
qed

text \<open>
  C6, amended. The tiling span is the total width of the generated column tiling: the
  number of columns that \<^verbatim>\<open>initializeGrid\<close> makes for the canvas width, times
  \<open>hexWidth\<close>. For a positive cell size and a non-negative canvas width, a cell whose
  screen x is below the threshold \<open>-3 \<cdot> hexWidth\<close> by at most one tiling span has, after
  the recycle step, a screen x at or above the threshold and a world x greater by at
  least one tiling span; its world y is unchanged unless the y axis wraps as well.
\<close>

theorem wrap_x_reaches_threshold:
  assumes "0 < hexSize props" and "0 \<le> fst cs"
    and "x hex - fst off < - hexWidth (hexSize props) * 3"
    and "- hexWidth (hexSize props) * 3
           - real (length (gridCols props (fst cs))) * hexWidth (hexSize props)
         \<le> x hex - fst off"
  shows "- hexWidth (hexSize props) * 3 \<le> x (fst (wrapHex props cs off hex g)) - fst off
       \<and> x hex + real (length (gridCols props (fst cs))) * hexWidth (hexSize props)
           \<le> x (fst (wrapHex props cs off hex g))
       \<and> (\<not> y hex - snd off < - hexHeight (hexSize props) * 3 \<longrightarrow>
            y (fst (wrapHex props cs off hex g)) = y hex)"
proof -
  let ?hw = "hexWidth (hexSize props)"
  let ?n = "real (length (gridCols props (fst cs)))"
  have hw: "0 < ?hw" using assms(1) by (simp add: hexWidth_def)
  have step: "x (fst (wrapHex props cs off hex g)) = x hex + (?n + 1) * ?hw"
    using assms(3) wrap_step_columns [OF assms(1,2)] by (simp add: wrapHex_x mult.commute)
  have "?n * ?hw \<le> (?n + 1) * ?hw" using hw by (simp add: distrib_right)
  with step have grow: "x hex + ?n * ?hw \<le> x (fst (wrapHex props cs off hex g))" by simp
  have "- ?hw * 3 \<le> (x hex - fst off) + ?n * ?hw" using assms(4) by simp
  with grow have reach: "- ?hw * 3 \<le> x (fst (wrapHex props cs off hex g)) - fst off" by simp
  from reach grow show ?thesis by (simp add: wrapHex_y)
qed

theorem wrap_x_reaches_threshold_witness:
  "0 < hexSize defaultProps \<and> 0 \<le> fst (300 :: real, 300 :: real)
   \<and> x restHex - fst (200, 0 :: real) < - hexWidth (hexSize defaultProps) * 3
   \<and> - hexWidth (hexSize defaultProps) * 3
        - real (length (gridCols defaultProps (fst (300 :: real, 300 :: real)))) * hexWidth (hexSize defaultProps)
      \<le> x restHex - fst (200, 0 :: real)
   \<and> \<not> y restHex - snd (200 :: real, 0) < - hexHeight (hexSize defaultProps) * 3
   \<and> - hexWidth (hexSize defaultProps) * 3
       \<le> x (fst (wrapHex defaultProps (300, 300) (200, 0) restHex (sconst 0))) - fst (200, 0 :: real)
   \<and> x restHex + real (length (gridCols defaultProps (fst (300 :: real, 300 :: real))))
                   * hexWidth (hexSize defaultProps)
       \<le> x (fst (wrapHex defaultProps (300, 300) (200, 0) restHex (sconst 0)))
   \<and> y (fst (wrapHex defaultProps (300, 300) (200, 0) restHex (sconst 0))) = y restHex"
proof -
  have s: "5 / 3 < sqrt 3" "sqrt 3 < 2" using sqrt3_bounds by simp_all
  have hs: "hexSize defaultProps = 30" by (simp add: defaultProps_def)
  have h1: "0 < hexSize defaultProps" by (simp add: hs)
  have h2: "0 \<le> fst (300 :: real, 300 :: real)" by simp
  have h3: "x restHex - fst (200, 0 :: real) < - hexWidth (hexSize defaultProps) * 3"
    using s by (simp add: hs hexWidth_def restHex_def)
  have h4: "- hexWidth (hexSize defaultProps) * 3
        - real (length (gridCols defaultProps (fst (300 :: real, 300 :: real)))) * hexWidth (hexSize defaultProps)
      \<le> x restHex - fst (200, 0 :: real)"
    using s by (simp add: hs gridCols_300) (simp add: hexWidth_def restHex_def)
  have h5: "\<not> y restHex - snd (200 :: real, 0) < - hexHeight (hexSize defaultProps) * 3"
    by (simp add: hs hexHeight_def restHex_def)
  from wrap_x_reaches_threshold [OF h1 h2 h3 h4, of "sconst 0"] h1 h2 h3 h4 h5
  show ?thesis by blast
qed

section \<open>Containment test\<close>

text \<open>
  C7. For every centre \<open>c\<close> and every positive size, \<open>isPointInHexagon\<close> accepts the
  centre itself; it rejects every point on the vertical through the centre at a distance
  greater than the size; and it is the bounding-diamond test of the specification.
\<close>

theorem isPointInHexagon_diamond:
  assumes "0 < sz"
  shows "isPointInHexagon cx cy cx cy sz
       \<and> (sz < \<bar>py - cy\<bar> \<longrightarrow> \<not> isPointInHexagon cx py cx cy sz)
       \<and> isPointInHexagon qx qy cx cy sz = pointInHexagon_spec (qx, qy) (cx, cy) sz"
proof (intro conjI impI)
  from assms have w: "0 < sz * sqrt 3" by simp
  from w show "isPointInHexagon cx cy cx cy sz"
    using assms by (simp add: isPointInHexagon_def mult_less_0_iff)
  show "\<not> isPointInHexagon cx py cx cy sz" if "sz < \<bar>py - cy\<bar>"
    using that by (simp add: isPointInHexagon_def)
  show "isPointInHexagon qx qy cx cy sz = pointInHexagon_spec (qx, qy) (cx, cy) sz"
    by (simp add: isPointInHexagon_def pointInHexagon_spec_def Let_def)
qed

theorem isPointInHexagon_diamond_witness:
  "(0::real) < 30 \<and> isPointInHexagon 100 200 100 200 30 \<and> (30::real) < \<bar>231 - 200\<bar>
   \<and> \<not> isPointInHexagon 100 231 100 200 30
   \<and> isPointInHexagon 110 205 100 200 30 = pointInHexagon_spec (110, 205) (100, 200) 30"
proof -
  have pos: "(0::real) < 30" by simp
  show ?thesis
    using pos isPointInHexagon_diamond [OF pos, of 100 200 231 110 205] by simp
qed

section \<open>Periodicity of the wave\<close>

text \<open>
  C8. The wave \<open>((sin (t + 0.01\<cdot>p.x + 0.01\<cdot>p.y) + 1) / 2)^4\<close> has period \<open>2\<pi>\<close> in time
  at every fixed position, and its value lies in \<open>[0, 1]\<close>.
\<close>

theorem wave_periodic_bounded:
  "wave (t + 2 * pi) p = wave t p \<and> 0 \<le> wave t p \<and> wave t p \<le> 1"
proof -
  have shift: "t + 2 * pi + fst p * 0.01 + snd p * 0.01 = (t + fst p * 0.01 + snd p * 0.01) + 2 * pi"
    by simp
  have per: "rawWave (t + 2 * pi) p = rawWave t p"
    unfolding rawWave_def shift sin_periodic ..
  have unit: "0 \<le> (sin a + 1) / 2 \<and> (sin a + 1) / 2 \<le> 1" for a :: real
  proof -
    have "0 \<le> (v + 1) / 2 \<and> (v + 1) / 2 \<le> 1" if "- 1 \<le> v" "v \<le> 1" for v :: real
      using that by simp
    from this [OF sin_ge_minus_one sin_le_one] show ?thesis .
  qed
  have lo: "0 \<le> rawWave t p"
    unfolding rawWave_def using unit by blast
  have hi: "rawWave t p \<le> 1"
    unfolding rawWave_def using unit by blast
  from lo hi have "rawWave t p ^ 4 \<le> 1" by (rule power_le_one)
  with per lo show ?thesis by (simp add: wave_def)
qed

section \<open>Cells outside the draw margin\<close>

text \<open>
  C9. A cell whose screen position, as the draw pass computes it, is outside the draw
  margin gets no canvas operation from the draw pass and comes out of it unchanged, also
  right after the recycle step of the same frame; a cell below neither wrap threshold
  comes out of the recycle step unchanged, with no draw taken; and in a whole frame the
  cell at an index, when off screen after the recycle pass, is what the recycle pass
  left.
\<close>

theorem offscreen_cell_untouched:
  "(offScreen props cs (x hex - fst off) (y hex - snd off) \<longrightarrow>
      drawCell props cs off m wt dt hex = (hex, []))
   \<and> (offScreen props cs (x (fst (wrapHex props cs off hex g)) - fst off)
                         (y (fst (wrapHex props cs off hex g)) - snd off) \<longrightarrow>
      drawCell props cs off m wt dt (fst (wrapHex props cs off hex g))
        = (fst (wrapHex props cs off hex g), []))
   \<and> (\<not> x hex - fst off < - hexWidth (hexSize props) * 3
      \<and> \<not> y hex - snd off < - hexHeight (hexSize props) * 3 \<longrightarrow>
      wrapHex props cs off hex g = (hex, g))
   \<and> (let deltaTime = (t - lastTime st) / 1000;
           offset = (fst (offsetRef st) + panSpeed props * deltaTime * 60,
                     snd (offsetRef st) + panSpeed props * deltaTime * 60);
           wrapped = fst (wrapAll props (canvasSize st) offset (hexagonsRef st) (rngState st))
       in i < length (hexagonsRef st)
          \<and> offScreen props (canvasSize st) (x (wrapped ! i) - fst offset) (y (wrapped ! i) - snd offset)
          \<longrightarrow> hexagonsRef (fst (animate props t st)) ! i = wrapped ! i)"
proof (intro conjI)
  show "offScreen props cs (x hex - fst off) (y hex - snd off) \<longrightarrow>
      drawCell props cs off m wt dt hex = (hex, [])"
    by (simp add: drawCell_skip)
  show "offScreen props cs (x (fst (wrapHex props cs off hex g)) - fst off)
                         (y (fst (wrapHex props cs off hex g)) - snd off) \<longrightarrow>
      drawCell props cs off m wt dt (fst (wrapHex props cs off hex g))
        = (fst (wrapHex props cs off hex g), [])"
    by (simp add: drawCell_skip)
  show "\<not> x hex - fst off < - hexWidth (hexSize props) * 3
      \<and> \<not> y hex - snd off < - hexHeight (hexSize props) * 3 \<longrightarrow>
      wrapHex props cs off hex g = (hex, g)"
    by (simp add: wrapHex_idle)
  show "let deltaTime = (t - lastTime st) / 1000;
           offset = (fst (offsetRef st) + panSpeed props * deltaTime * 60,
                     snd (offsetRef st) + panSpeed props * deltaTime * 60);
           wrapped = fst (wrapAll props (canvasSize st) offset (hexagonsRef st) (rngState st))
       in i < length (hexagonsRef st)
          \<and> offScreen props (canvasSize st) (x (wrapped ! i) - fst offset) (y (wrapped ! i) - snd offset)
          \<longrightarrow> hexagonsRef (fst (animate props t st)) ! i = wrapped ! i"
    by (simp add: animate_def Let_def split_def wrapAll_length drawCell_skip)
qed

theorem offscreen_cell_untouched_witness:
  "offScreen defaultProps (300, 300) (x restHex - fst (100, 0 :: real)) (y restHex - snd (100 :: real, 0))
   \<and> \<not> x restHex - fst (100, 0 :: real) < - hexWidth (hexSize defaultProps) * 3
   \<and> \<not> y restHex - snd (100 :: real, 0) < - hexHeight (hexSize defaultProps) * 3
   \<and> (0::nat) < length (hexagonsRef parkedState)
   \<and> wrapHex defaultProps (300, 300) (100, 0) restHex (sconst 0) = (restHex, sconst 0)
   \<and> drawCell defaultProps (300, 300) (100, 0) (0, 0) 0 (1 / 60) restHex = (restHex, [])
   \<and> hexagonsRef (fst (animate defaultProps 0 parkedState)) ! 0 = restHex"
proof -
  have s: "5 / 3 < sqrt 3" "sqrt 3 < 2" using sqrt3_bounds by simp_all
  have hs: "hexSize defaultProps = 30" by (simp add: defaultProps_def)
  have h1: "offScreen defaultProps (300, 300) (x restHex - fst (100, 0 :: real))
              (y restHex - snd (100 :: real, 0))"
    using s by (simp add: offScreen_def hs hexWidth_def restHex_def)
  have h2: "\<not> x restHex - fst (100, 0 :: real) < - hexWidth (hexSize defaultProps) * 3
          \<and> \<not> y restHex - snd (100 :: real, 0) < - hexHeight (hexSize defaultProps) * 3"
    using s by (simp add: hs hexWidth_def hexHeight_def restHex_def)
  have h3: "(0::nat) < length (hexagonsRef parkedState)" by (simp add: parkedState_def)
  note th = offscreen_cell_untouched [where props = defaultProps and cs = "(300, 300)"
      and hex = restHex and off = "(100, 0)" and m = "(0, 0)" and wt = 0 and dt = "1 / 60"
      and g = "sconst 0" and t = 0 and st = parkedState and i = 0]
  from th h2 have w: "wrapHex defaultProps (300, 300) (100, 0) restHex (sconst 0) = (restHex, sconst 0)"
    by blast
  from th h1 have d: "drawCell defaultProps (300, 300) (100, 0) (0, 0) 0 (1 / 60) restHex = (restHex, [])"
    by blast
  from th have "hexagonsRef (fst (animate defaultProps 0 parkedState)) ! 0 = restHex"
    using h1 w by (simp add: parkedState_def Let_def)
  with h1 h2 h3 w d show ?thesis by blast
qed

section \<open>Recycled cells\<close>

text \<open>
  C10. A cell that the recycle step wraps on either axis has afterwards no colour and
  hover opacity and hover target 0, the coordinate of an axis that did not trigger is
  unchanged, and the draw pass of the frame leaves it without colour. The recycle step
  never gives a cell a colour other than the one it had, and the draw pass never changes
  the colour: frames create no coloured cell.
\<close>

theorem recycled_cell_cleared:
  "(x hex - fst off < - hexWidth (hexSize props) * 3
      \<or> y hex - snd off < - hexHeight (hexSize props) * 3 \<longrightarrow>
      color (fst (wrapHex props cs off hex g)) = None
      \<and> hoverOpacity (fst (wrapHex props cs off hex g)) = 0
      \<and> hoverTarget (fst (wrapHex props cs off hex g)) = 0
      \<and> (\<not> x hex - fst off < - hexWidth (hexSize props) * 3 \<longrightarrow>
            x (fst (wrapHex props cs off hex g)) = x hex)
      \<and> (\<not> y hex - snd off < - hexHeight (hexSize props) * 3 \<longrightarrow>
            y (fst (wrapHex props cs off hex g)) = y hex)
      \<and> color (fst (drawCell props cs off m wt dt (fst (wrapHex props cs off hex g)))) = None)
   \<and> color (fst (wrapHex props cs off hex g)) \<in> {None, color hex}
   \<and> color (fst (drawCell props cs off m wt dt hex)) = color hex"
  using wrapHex_color [of props cs off hex g]
  by (auto simp add: wrapHex_cleared wrapHex_x wrapHex_y drawCell_color simp del: insert_iff)

theorem recycled_cell_cleared_witness:
  "x brightHex - fst (1000, 0 :: real) < - hexWidth (hexSize defaultProps) * 3
   \<and> \<not> y brightHex - snd (1000 :: real, 0) < - hexHeight (hexSize defaultProps) * 3
   \<and> color brightHex = Some Red
   \<and> color (fst (wrapHex defaultProps (300, 300) (1000, 0) brightHex (sconst 0))) = None
   \<and> hoverOpacity (fst (wrapHex defaultProps (300, 300) (1000, 0) brightHex (sconst 0))) = 0
   \<and> hoverTarget (fst (wrapHex defaultProps (300, 300) (1000, 0) brightHex (sconst 0))) = 0
   \<and> y (fst (wrapHex defaultProps (300, 300) (1000, 0) brightHex (sconst 0))) = y brightHex
   \<and> color (fst (drawCell defaultProps (300, 300) (1000, 0) (0, 0) 0 (1 / 60)
               (fst (wrapHex defaultProps (300, 300) (1000, 0) brightHex (sconst 0))))) = None"
proof -
  have s: "5 / 3 < sqrt 3" "sqrt 3 < 2" using sqrt3_bounds by simp_all
  have hs: "hexSize defaultProps = 30" by (simp add: defaultProps_def)
  have h1: "x brightHex - fst (1000, 0 :: real) < - hexWidth (hexSize defaultProps) * 3"
    using s by (simp add: hs hexWidth_def brightHex_def)
  have h2: "\<not> y brightHex - snd (1000 :: real, 0) < - hexHeight (hexSize defaultProps) * 3"
    by (simp add: hs hexHeight_def brightHex_def)
  have h3: "color brightHex = Some Red" by (simp add: brightHex_def)
  from recycled_cell_cleared [where props = defaultProps and cs = "(300, 300)"
      and hex = brightHex and off = "(1000, 0)" and m = "(0, 0)" and wt = 0 and dt = "1 / 60"
      and g = "sconst 0"] h1 h2 h3
  show ?thesis by blast
qed

end
